theory Spec2Isabelle
  imports Complex_Main "HOL-Library.Sublist"
begin

section \<open>Python values used by \<open>abstar/utils/vdj.py\<close>\<close>

text \<open>
  The module is Python 2. Its exceptions are values here: every function of the module that
  can raise returns \<open>exn + 'a\<close>, with \<open>Inl\<close> for the raised exception. \<open>External\<close> is
  an exception raised inside a collaborator that is not part of the module (BLAST, the SSW
  aligner, Biopython, the junction, productivity, isotype and annotation modules).
\<close>

datatype exn = IndexError | TypeError | ValueError | AttributeError | External string

definition bind_exn :: "exn + 'a \<Rightarrow> ('a \<Rightarrow> exn + 'b) \<Rightarrow> exn + 'b" where
  "bind_exn m f = (case m of Inl e \<Rightarrow> Inl e | Inr x \<Rightarrow> f x)"

fun map_exn :: "('a \<Rightarrow> exn + 'b) \<Rightarrow> 'a list \<Rightarrow> exn + 'b list" where
  "map_exn f [] = Inr []"
| "map_exn f (x # xs) =
     (case f x of Inl e \<Rightarrow> Inl e
      | Inr y \<Rightarrow> (case map_exn f xs of Inl e \<Rightarrow> Inl e | Inr ys \<Rightarrow> Inr (y # ys)))"

text \<open>\<open>xs[i]\<close>: a negative index counts from the end, an index out of range raises.\<close>

definition py_getitem :: "'a list \<Rightarrow> int \<Rightarrow> exn + 'a" where
  "py_getitem xs i =
     (let n = int (length xs); k = (if i < 0 then n + i else i)
      in if 0 \<le> k \<and> k < n then Inr (xs ! nat k) else Inl IndexError)"

text \<open>
  \<open>xs[a:b]\<close>: a bound that is left out is \<open>None\<close>; a negative bound counts from the end;
  bounds are clamped to the sequence, and the slice is empty when they cross. It never
  raises.
\<close>

definition py_bound :: "nat \<Rightarrow> int \<Rightarrow> nat" where
  "py_bound n i = (if i < 0 then nat (int n + i) else min (nat i) n)"

definition py_slice :: "'a list \<Rightarrow> int option \<Rightarrow> int option \<Rightarrow> 'a list" where
  "py_slice xs a b =
     (let n = length xs;
          lo = (case a of None \<Rightarrow> 0 | Some i \<Rightarrow> py_bound n i);
          hi = (case b of None \<Rightarrow> n | Some j \<Rightarrow> py_bound n j)
      in take (hi - lo) (drop lo xs))"

text \<open>\<open>c * n\<close> for a one-character string \<open>c\<close>: empty when \<open>n\<close> is not positive.\<close>

definition py_repeat :: "char \<Rightarrow> int \<Rightarrow> string" where
  "py_repeat c n = replicate (nat n) c"

text \<open>\<open>s.replace('-', '')\<close>.\<close>

definition strip_gaps :: "string \<Rightarrow> string" where
  "strip_gaps s = filter (\<lambda>c. c \<noteq> CHR ''-'') s"

text \<open>\<open>s.startswith(p)\<close>.\<close>

definition startswith :: "string \<Rightarrow> string \<Rightarrow> bool" where
  "startswith s p = (take (length p) s = p)"

text \<open>\<open>s.split()\<close>: the maximal runs of characters that are not whitespace.\<close>

definition is_space :: "char \<Rightarrow> bool" where
  "is_space c = (c = CHR '' '' \<or> c = CHR 0x09 \<or> c = CHR 0x0A \<or> c = CHR 0x0B
                 \<or> c = CHR 0x0C \<or> c = CHR 0x0D)"

fun split_acc :: "string \<Rightarrow> string \<Rightarrow> string list" where
  "split_acc [] cur = (if cur = [] then [] else [rev cur])"
| "split_acc (c # cs) cur =
     (if is_space c then (if cur = [] then split_acc cs [] else rev cur # split_acc cs [])
      else split_acc cs (c # cur))"

definition py_split :: "string \<Rightarrow> string list" where
  "py_split s = split_acc s []"


section \<open>The BLASTn record (Biopython), as the module reads it\<close>

text \<open>
  Field names carry the class as a prefix (\<open>hsp_\<close>, \<open>aln_\<close>, \<open>br_\<close>, ...), since the
  Python classes share attribute names. Scores, e-values and bit scores are the floats of
  the parsed XML; the module stores and never computes with them.
\<close>

record hsp =
  hsp_score :: real
  hsp_expect :: real
  hsp_bits :: real
  hsp_query :: string
  hsp_sbjct :: string
  hsp_match :: string
  hsp_query_start :: int
  hsp_sbjct_start :: int

record blast_alignment =
  aln_title :: string
  aln_length :: int
  aln_hsps :: "hsp list"

text \<open>Values of the annotation modules (indels, regions, mutations), opaque to this module.\<close>

type_synonym annotation = string


section \<open>\<open>class BlastResult\<close>\<close>

record BlastResult =
  br_id :: string
  br_alignments :: "blast_alignment list"
  br_input_sequence :: string
  br_species :: string
  br_top_germline :: string
  br_all_germlines :: "string list"
  br_top_score :: real
  br_all_scores :: "real list"
  br_top_evalue :: real
  br_all_evalues :: "real list"
  br_top_bitscore :: real
  br_all_bitscores :: "real list"
  br_strand :: string
  br_query_alignment :: string
  br_germline_alignment :: string
  br_alignment_midline :: string
  br_alignment_length :: int
  br_query_start :: int
  br_query_end :: int
  br_germline_start :: int
  br_germline_end :: int
  br_gene_type :: "string option"
  br_chain :: "string option"
  br_germline_seq :: "string option"
  br_fs_indel_adjustment :: int
  br_nfs_indel_adjustment :: int
  br_insertions :: "annotation list"
  br_deletions :: "annotation list"
  br_regions :: "annotation option"
  br_nt_mutations :: "annotation option"
  br_aa_mutations :: "annotation option"

text \<open>\<open>self.alignments[0]\<close> and \<open>top_alignment.hsps[0]\<close>.\<close>

definition top_alignment :: "blast_alignment list \<Rightarrow> exn + blast_alignment" where
  "top_alignment alns = py_getitem alns 0"

definition first_hsp :: "blast_alignment \<Rightarrow> exn + hsp" where
  "first_hsp a = py_getitem (aln_hsps a) 0"

definition top_hsp :: "blast_alignment list \<Rightarrow> exn + hsp" where
  "top_hsp alns = bind_exn (top_alignment alns) first_hsp"

text \<open>\<open>alignment.title.split()[0]\<close>.\<close>

definition title_gene :: "blast_alignment \<Rightarrow> exn + string" where
  "title_gene a = py_getitem (py_split (aln_title a)) 0"

definition BlastResult_get_top_germline :: "blast_alignment list \<Rightarrow> exn + string" where
  "BlastResult_get_top_germline alns = bind_exn (top_alignment alns) title_gene"

definition BlastResult_get_all_germlines :: "blast_alignment list \<Rightarrow> exn + string list" where
  "BlastResult_get_all_germlines alns = map_exn title_gene alns"

definition BlastResult_get_top_score :: "blast_alignment list \<Rightarrow> exn + real" where
  "BlastResult_get_top_score alns = bind_exn (top_hsp alns) (\<lambda>h. Inr (hsp_score h))"

definition BlastResult_get_all_scores :: "blast_alignment list \<Rightarrow> exn + real list" where
  "BlastResult_get_all_scores alns =
     map_exn (\<lambda>a. bind_exn (first_hsp a) (\<lambda>h. Inr (hsp_score h))) alns"

definition BlastResult_get_top_evalue :: "blast_alignment list \<Rightarrow> exn + real" where
  "BlastResult_get_top_evalue alns = bind_exn (top_hsp alns) (\<lambda>h. Inr (hsp_expect h))"

definition BlastResult_get_all_evalues :: "blast_alignment list \<Rightarrow> exn + real list" where
  "BlastResult_get_all_evalues alns =
     map_exn (\<lambda>a. bind_exn (first_hsp a) (\<lambda>h. Inr (hsp_expect h))) alns"

definition BlastResult_get_top_bitscore :: "blast_alignment list \<Rightarrow> exn + real" where
  "BlastResult_get_top_bitscore alns = bind_exn (top_hsp alns) (\<lambda>h. Inr (hsp_bits h))"

definition BlastResult_get_all_bitscores :: "blast_alignment list \<Rightarrow> exn + real list" where
  "BlastResult_get_all_bitscores alns =
     map_exn (\<lambda>a. bind_exn (first_hsp a) (\<lambda>h. Inr (hsp_bits h))) alns"

definition BlastResult_get_query_alignment :: "blast_alignment list \<Rightarrow> exn + string" where
  "BlastResult_get_query_alignment alns = bind_exn (top_hsp alns) (\<lambda>h. Inr (hsp_query h))"

definition BlastResult_get_germline_alignment :: "blast_alignment list \<Rightarrow> exn + string" where
  "BlastResult_get_germline_alignment alns = bind_exn (top_hsp alns) (\<lambda>h. Inr (hsp_sbjct h))"

definition BlastResult_get_alignment_midline :: "blast_alignment list \<Rightarrow> exn + string" where
  "BlastResult_get_alignment_midline alns = bind_exn (top_hsp alns) (\<lambda>h. Inr (hsp_match h))"

definition BlastResult_get_alignment_length :: "blast_alignment list \<Rightarrow> exn + int" where
  "BlastResult_get_alignment_length alns =
     bind_exn (top_alignment alns) (\<lambda>a. Inr (aln_length a))"

definition BlastResult_get_query_start :: "blast_alignment list \<Rightarrow> exn + int" where
  "BlastResult_get_query_start alns =
     bind_exn (top_hsp alns) (\<lambda>h. Inr (hsp_query_start h - 1))"

text \<open>\<open>self.query_start + self.alignment_length\<close>, on the attributes already set.\<close>

definition BlastResult_get_query_end :: "int \<Rightarrow> int \<Rightarrow> int" where
  "BlastResult_get_query_end query_start alignment_length = query_start + alignment_length"

definition BlastResult_get_germline_start :: "blast_alignment list \<Rightarrow> exn + int" where
  "BlastResult_get_germline_start alns =
     bind_exn (top_hsp alns) (\<lambda>h. Inr (hsp_sbjct_start h - 1))"

definition BlastResult_get_germline_end :: "int \<Rightarrow> int \<Rightarrow> int" where
  "BlastResult_get_germline_end germline_start alignment_length =
     germline_start + alignment_length"

text \<open>\<open>_gene_type\<close> reads \<open>self.top_germline[3]\<close>, which raises on a shorter name.\<close>

definition BlastResult_gene_type :: "string \<Rightarrow> exn + string option" where
  "BlastResult_gene_type top_germline =
     bind_exn (py_getitem top_germline 3) (\<lambda>c.
       if c = CHR ''V'' then Inr (Some ''variable'')
       else if c = CHR ''J'' then Inr (Some ''joining'')
       else Inr None)"

definition BlastResult_chain :: "string \<Rightarrow> string option" where
  "BlastResult_chain top_germline =
     (if startswith top_germline ''IGH'' then Some ''heavy''
      else if startswith top_germline ''IGK'' then Some ''kappa''
      else if startswith top_germline ''IGL'' then Some ''lambda''
      else if startswith top_germline ''VH'' then Some ''heavy''
      else None)"

text \<open>
  \<open>BlastResult.__init__\<close>, attribute by attribute in the order of the source. The
  attributes that \<open>realign_variable\<close> and \<open>annotate\<close> add later start out unset.
\<close>

definition BlastResult_init ::
  "string \<Rightarrow> blast_alignment list \<Rightarrow> string \<Rightarrow> string \<Rightarrow> exn + BlastResult" where
  "BlastResult_init seq_id alns input_sequence species =
     bind_exn (BlastResult_get_top_germline alns) (\<lambda>top_germline.
     bind_exn (BlastResult_get_all_germlines alns) (\<lambda>all_germlines.
     bind_exn (BlastResult_get_top_score alns) (\<lambda>top_score.
     bind_exn (BlastResult_get_all_scores alns) (\<lambda>all_scores.
     bind_exn (BlastResult_get_top_evalue alns) (\<lambda>top_evalue.
     bind_exn (BlastResult_get_all_evalues alns) (\<lambda>all_evalues.
     bind_exn (BlastResult_get_top_bitscore alns) (\<lambda>top_bitscore.
     bind_exn (BlastResult_get_all_bitscores alns) (\<lambda>all_bitscores.
     bind_exn (BlastResult_get_query_alignment alns) (\<lambda>query_alignment.
     bind_exn (BlastResult_get_germline_alignment alns) (\<lambda>germline_alignment.
     bind_exn (BlastResult_get_alignment_midline alns) (\<lambda>alignment_midline.
     bind_exn (BlastResult_get_alignment_length alns) (\<lambda>alignment_length.
     bind_exn (BlastResult_get_query_start alns) (\<lambda>query_start.
     bind_exn (BlastResult_get_germline_start alns) (\<lambda>germline_start.
     bind_exn (BlastResult_gene_type top_germline) (\<lambda>gene_type.
       Inr \<lparr> br_id = seq_id,
             br_alignments = alns,
             br_input_sequence = input_sequence,
             br_species = species,
             br_top_germline = top_germline,
             br_all_germlines = all_germlines,
             br_top_score = top_score,
             br_all_scores = all_scores,
             br_top_evalue = top_evalue,
             br_all_evalues = all_evalues,
             br_top_bitscore = top_bitscore,
             br_all_bitscores = all_bitscores,
             br_strand = ''plus'',
             br_query_alignment = query_alignment,
             br_germline_alignment = germline_alignment,
             br_alignment_midline = alignment_midline,
             br_alignment_length = alignment_length,
             br_query_start = query_start,
             br_query_end = BlastResult_get_query_end query_start alignment_length,
             br_germline_start = germline_start,
             br_germline_end = BlastResult_get_germline_end germline_start alignment_length,
             br_gene_type = gene_type,
             br_chain = BlastResult_chain top_germline,
             br_germline_seq = None,
             br_fs_indel_adjustment = 0,
             br_nfs_indel_adjustment = 0,
             br_insertions = [],
             br_deletions = [],
             br_regions = None,
             br_nt_mutations = None,
             br_aa_mutations = None \<rparr>)))))))))))))))"


section \<open>The SSW aligner's result and \<open>class Alignment\<close>\<close>

text \<open>The \<open>PyAlignRes\<close> object of \<open>ssw_wrap\<close>: the attributes the module reads.\<close>

record PyAlignRes =
  pa_cigar_string :: string
  pa_ref_begin :: int
  pa_ref_end :: int
  pa_query_begin :: int
  pa_query_end :: int
  pa_score :: int

record Alignment =
  al_target_id :: string
  al_query_seq :: string
  al_target_seq :: string
  al_alignment :: PyAlignRes
  al_cigar :: string
  al_query_begin :: int
  al_query_end :: int
  al_target_begin :: int
  al_target_end :: int
  al_aligned_query :: string
  al_aligned_target :: string

text \<open>
  \<open>Alignment.__init__\<close>. The target sequence is \<open>None\<close> when the germline gene was not
  found in the database (see \<open>BlastResult_get_germline_sequence_for_realignment\<close>);
  slicing \<open>None\<close> raises \<open>TypeError\<close>, after the query has been sliced.
\<close>

definition Alignment_get_aligned_query :: "string \<Rightarrow> int \<Rightarrow> int \<Rightarrow> string" where
  "Alignment_get_aligned_query query_seq query_begin query_end =
     py_slice query_seq (Some query_begin) (Some query_end)"

definition Alignment_get_aligned_target :: "string option \<Rightarrow> int \<Rightarrow> int \<Rightarrow> exn + string" where
  "Alignment_get_aligned_target target_seq target_begin target_end =
     (case target_seq of
        None \<Rightarrow> Inl TypeError
      | Some t \<Rightarrow> Inr (py_slice t (Some target_begin) (Some target_end)))"

definition Alignment_init ::
  "string \<Rightarrow> string \<Rightarrow> string option \<Rightarrow> PyAlignRes \<Rightarrow> exn + Alignment" where
  "Alignment_init target_id query_seq target_seq alignment =
     (let query_begin = pa_ref_begin alignment;
          query_end = pa_ref_end alignment + 1;
          target_begin = pa_query_begin alignment;
          target_end = pa_query_end alignment + 1
      in bind_exn (Alignment_get_aligned_target target_seq target_begin target_end)
           (\<lambda>aligned_target.
              Inr \<lparr> al_target_id = target_id,
                    al_query_seq = query_seq,
                    al_target_seq = (case target_seq of Some t \<Rightarrow> t | None \<Rightarrow> []),
                    al_alignment = alignment,
                    al_cigar = pa_cigar_string alignment,
                    al_query_begin = query_begin,
                    al_query_end = query_end,
                    al_target_begin = target_begin,
                    al_target_end = target_end,
                    al_aligned_query =
                      Alignment_get_aligned_query query_seq query_begin query_end,
                    al_aligned_target = aligned_target \<rparr>))"


section \<open>Collaborators of the re-alignment\<close>

record aligner_params =
  ap_match :: int
  ap_mismatch :: int
  ap_gap_open :: int
  ap_gap_extend :: int
  ap_report_cigar :: bool

text \<open>
  What the module calls and does not define:
  \<^item> \<open>read_fasta path\<close>: \<open>SeqIO.parse(open(path), 'fasta')\<close>, the records as (id, sequence)
    pairs, the path relative to the package directory; opening the file can raise;
  \<^item> \<open>ssw_align params reference target opts\<close>:
    \<open>Aligner(reference, **params).align(target, **opts)\<close>, with \<open>opts\<close> the pair
    \<open>(min_score, min_len)\<close> when the call passes one. An \<open>align\<close> that returns no result
    makes the module raise at the first attribute it reads, before it changes any state, so
    that case is an \<open>Inl\<close> of this function too;
  \<^item> \<open>reverse_complement s\<close>: \<open>str(Seq(s, generic_dna).reverse_complement())\<close>;
  \<^item> \<open>record_rc (id, sequence)\<close>: \<open>Sequence(s).rc()\<close> on a database record, read back
    through \<open>.id\<close> and \<open>str(.seq)\<close>.
\<close>

record aligners =
  read_fasta :: "string \<Rightarrow> exn + (string \<times> string) list"
  ssw_align :: "aligner_params \<Rightarrow> string \<Rightarrow> string option \<Rightarrow> (int \<times> int) option
                  \<Rightarrow> exn + PyAlignRes"
  reverse_complement :: "string \<Rightarrow> exn + string"
  record_rc :: "string \<times> string \<Rightarrow> exn + string \<times> string"

text \<open>\<open>s.lower()\<close> and \<open>s.upper()\<close> on ASCII.\<close>

definition py_lower :: "string \<Rightarrow> string" where
  "py_lower s = map (\<lambda>c. let n = (of_char c :: nat)
                          in if 65 \<le> n \<and> n \<le> 90 then char_of (n + 32) else c) s"

definition py_upper :: "string \<Rightarrow> string" where
  "py_upper s = map (\<lambda>c. let n = (of_char c :: nat)
                          in if 97 \<le> n \<and> n \<le> 122 then char_of (n - 32) else c) s"

text \<open>
  \<open>int(s)\<close> on a \<open>str\<close>: surrounding whitespace and one sign are accepted, then at least
  one decimal digit and nothing else; \<open>ValueError\<close> otherwise.
\<close>

definition is_digit :: "char \<Rightarrow> bool" where
  "is_digit c = (let n = (of_char c :: nat) in 48 \<le> n \<and> n \<le> 57)"

definition digits_value :: "string \<Rightarrow> nat" where
  "digits_value ds = foldl (\<lambda>a c. 10 * a + (of_char c - 48)) 0 ds"

definition py_strip :: "string \<Rightarrow> string" where
  "py_strip s = rev (dropWhile is_space (rev (dropWhile is_space s)))"

definition py_int :: "string \<Rightarrow> exn + int" where
  "py_int s =
     (let t = py_strip s;
          neg = (t \<noteq> [] \<and> hd t = CHR ''-'');
          ds = (if t \<noteq> [] \<and> (hd t = CHR ''-'' \<or> hd t = CHR ''+'') then tl t else t)
      in if ds \<noteq> [] \<and> list_all is_digit ds
         then Inr (if neg then - int (digits_value ds) else int (digits_value ds))
         else Inl ValueError)"


section \<open>Re-alignment of a \<open>BlastResult\<close>\<close>

text \<open>
  \<open>_get_germline_sequence_for_realignment\<close>: the sequence of the first record of the
  species' database whose id is the gene, \<open>None\<close> when there is none.
\<close>

definition BlastResult_get_germline_sequence_for_realignment ::
  "aligners \<Rightarrow> BlastResult \<Rightarrow> string \<Rightarrow> string \<Rightarrow> exn + string option" where
  "BlastResult_get_germline_sequence_for_realignment env self germ gene =
     bind_exn (read_fasta env (''ssw/dbs/'' @ py_lower (br_species self) @ ''_'' @ gene @ ''.fasta''))
       (\<lambda>records. Inr (map_of records germ))"

text \<open>
  \<open>re.compile('([MIDNSHPX=])').split(cigar)\<close>: the pieces between the operation
  letters, each followed by its letter; the last piece has none.
\<close>

definition is_cigar_op :: "char \<Rightarrow> bool" where
  "is_cigar_op c = (c \<in> set ''MIDNSHPX='')"

fun re_split_acc :: "string \<Rightarrow> string \<Rightarrow> string list" where
  "re_split_acc [] cur = [rev cur]"
| "re_split_acc (c # cs) cur =
     (if is_cigar_op c then rev cur # [c] # re_split_acc cs []
      else re_split_acc cs (c # cur))"

definition cigar_split :: "string \<Rightarrow> string list" where
  "cigar_split cigar = re_split_acc cigar []"

text \<open>\<open>zip(*2*[iter(values)])\<close>: consecutive elements in pairs, an odd last one dropped.\<close>

fun pairwise :: "'a list \<Rightarrow> ('a \<times> 'a) list" where
  "pairwise (x # y # rest) = (x, y) # pairwise rest"
| "pairwise _ = []"

definition BlastResult_alignment_chunk_from_cigar_pair ::
  "Alignment \<Rightarrow> string \<times> string \<Rightarrow> string \<Rightarrow> string \<Rightarrow> exn + string \<times> string" where
  "BlastResult_alignment_chunk_from_cigar_pair alignment pair query germline =
     (let q = int (length (strip_gaps query));
          g = int (length (strip_gaps germline))
      in bind_exn (py_int (fst pair)) (\<lambda>clength.
           let ctype = snd pair in
           if py_upper ctype = ''S'' then Inr (query, germline)
           else if py_upper ctype = ''M'' then
             Inr (query @ py_slice (al_aligned_query alignment) (Some q) (Some (q + clength)),
                  germline @ py_slice (al_aligned_target alignment) (Some g) (Some (g + clength)))
           else if py_upper ctype = ''D'' then
             Inr (query @ py_slice (al_aligned_query alignment) (Some q) (Some (q + clength)),
                  germline @ py_repeat (CHR ''-'') clength)
           else if py_upper ctype = ''I'' then
             Inr (query @ py_repeat (CHR ''-'') clength,
                  germline @ py_slice (al_aligned_target alignment) (Some g) (Some (g + clength)))
           else Inr (query, germline)))"

fun cigar_loop ::
  "Alignment \<Rightarrow> (string \<times> string) list \<Rightarrow> string \<Rightarrow> string \<Rightarrow> exn + string \<times> string" where
  "cigar_loop alignment [] query germline = Inr (query, germline)"
| "cigar_loop alignment (p # ps) query germline =
     (case BlastResult_alignment_chunk_from_cigar_pair alignment p query germline of
        Inl e \<Rightarrow> Inl e
      | Inr (query', germline') \<Rightarrow> cigar_loop alignment ps query' germline')"

definition BlastResult_cigar_to_alignment :: "Alignment \<Rightarrow> exn + string \<times> string" where
  "BlastResult_cigar_to_alignment alignment =
     (let values = butlast (cigar_split (al_cigar alignment));
          pairs = pairwise values
      in cigar_loop alignment pairs [] [])"

definition BlastResult_get_realignment_midline :: "BlastResult \<Rightarrow> string" where
  "BlastResult_get_realignment_midline self =
     map (\<lambda>(a, b). if a = b then CHR ''|'' else CHR '' '')
       (zip (br_query_alignment self) (br_germline_alignment self))"

definition BlastResult_process_realignment :: "BlastResult \<Rightarrow> Alignment \<Rightarrow> exn + BlastResult" where
  "BlastResult_process_realignment self alignment =
     bind_exn (BlastResult_cigar_to_alignment alignment) (\<lambda>(query, germline).
       let s1 = self\<lparr> br_query_alignment := query, br_germline_alignment := germline \<rparr>;
           s2 = s1\<lparr> br_alignment_midline := BlastResult_get_realignment_midline s1 \<rparr>;
           s3 = (if br_gene_type s2 = Some ''variable''
                 then s2\<lparr> br_query_start := al_query_begin alignment,
                          br_germline_start := al_target_begin alignment \<rparr>
                 else s2)
       in Inr (s3\<lparr> br_query_end := al_query_end alignment,
                    br_germline_end := al_target_end alignment \<rparr>))"

definition joining_params :: aligner_params where
  "joining_params = \<lparr> ap_match = 3, ap_mismatch = 2, ap_gap_open = 12, ap_gap_extend = 1,
                       ap_report_cigar = True \<rparr>"

definition variable_params :: aligner_params where
  "variable_params = \<lparr> ap_match = 3, ap_mismatch = 2, ap_gap_open = 22, ap_gap_extend = 1,
                        ap_report_cigar = True \<rparr>"

text \<open>
  \<open>realign_joining\<close>: the query from \<open>query_start\<close> on against the germline from
  \<open>germline_start\<close> on (slicing a germline that is \<open>None\<close> raises).
\<close>

definition BlastResult_realign_joining ::
  "aligners \<Rightarrow> BlastResult \<Rightarrow> string \<Rightarrow> exn + BlastResult" where
  "BlastResult_realign_joining env self germline_gene =
     bind_exn (BlastResult_get_germline_sequence_for_realignment env self germline_gene ''J'')
       (\<lambda>germline_seq.
          let s1 = self\<lparr> br_germline_seq := germline_seq \<rparr>;
              query = py_slice (br_input_sequence s1) (Some (br_query_start s1)) None
          in case germline_seq of
               None \<Rightarrow> Inl TypeError
             | Some gs \<Rightarrow>
                 (let target = py_slice gs (Some (br_germline_start s1)) None
                  in bind_exn (ssw_align env joining_params query (Some target) None)
                       (\<lambda>alignment.
                          bind_exn (Alignment_init germline_gene query (Some target) alignment)
                            (BlastResult_process_realignment s1))))"

text \<open>
  \<open>realign_variable\<close>: the stored query and its reverse complement are both aligned to
  the germline; the forward alignment is processed when its score is strictly the greater,
  otherwise the strand becomes \<open>'minus'\<close>, the stored query its reverse complement, and the
  reverse-complement alignment is processed.
\<close>

definition BlastResult_realign_variable ::
  "aligners \<Rightarrow> BlastResult \<Rightarrow> string \<Rightarrow> exn + BlastResult" where
  "BlastResult_realign_variable env self germline_gene =
     bind_exn (BlastResult_get_germline_sequence_for_realignment env self germline_gene ''V'')
       (\<lambda>germline_seq.
          let s1 = self\<lparr> br_germline_seq := germline_seq \<rparr>
          in bind_exn (ssw_align env variable_params (br_input_sequence s1) germline_seq None)
               (\<lambda>alignment.
          bind_exn (reverse_complement env (br_input_sequence s1)) (\<lambda>rc.
          bind_exn (ssw_align env variable_params rc germline_seq None) (\<lambda>alignment_rc.
            if pa_score alignment > pa_score alignment_rc
            then bind_exn
                   (Alignment_init germline_gene (br_input_sequence s1) germline_seq alignment)
                   (BlastResult_process_realignment s1)
            else (let s2 = s1\<lparr> br_strand := ''minus'', br_input_sequence := rc \<rparr>
                  in bind_exn
                       (Alignment_init germline_gene (br_input_sequence s2) germline_seq
                          alignment_rc)
                       (BlastResult_process_realignment s2))))))"


section \<open>\<open>BlastResult.annotate\<close>\<close>

text \<open>
  The annotation modules are not part of the module. The two indel functions receive the
  object and are the only place where \<open>fs_indel_adjustment\<close> and \<open>nfs_indel_adjustment\<close>,
  which \<open>build_j_blast_input\<close> reads, can become non-zero: they return their list together
  with the object as they leave it. The region and mutation functions return a value.
\<close>

record annotators =
  find_insertions :: "BlastResult \<Rightarrow> exn + annotation list \<times> BlastResult"
  find_deletions :: "BlastResult \<Rightarrow> exn + annotation list \<times> BlastResult"
  regions :: "BlastResult \<Rightarrow> exn + annotation"
  nt_mutations :: "BlastResult \<Rightarrow> exn + annotation"
  aa_mutations :: "BlastResult \<Rightarrow> exn + annotation"

definition BlastResult_indel_check :: "BlastResult \<Rightarrow> bool" where
  "BlastResult_indel_check self =
     (if CHR ''-'' \<in> set (br_query_alignment self) then True
      else if CHR ''-'' \<in> set (br_germline_alignment self) then True
      else False)"

definition BlastResult_find_indels :: "annotators \<Rightarrow> BlastResult \<Rightarrow> exn + BlastResult" where
  "BlastResult_find_indels ann self =
     (let s1 = self\<lparr> br_insertions := [], br_deletions := [] \<rparr>
      in if BlastResult_indel_check s1
         then bind_exn (find_insertions ann s1) (\<lambda>(ins, s2).
                let s3 = s2\<lparr> br_insertions := ins \<rparr>
                in bind_exn (find_deletions ann s3) (\<lambda>(dels, s4).
                     Inr (s4\<lparr> br_deletions := dels \<rparr>)))
         else Inr s1)"

definition BlastResult_annotate :: "annotators \<Rightarrow> BlastResult \<Rightarrow> exn + BlastResult" where
  "BlastResult_annotate ann self =
     (let s1 = self\<lparr> br_fs_indel_adjustment := 0, br_nfs_indel_adjustment := 0 \<rparr>
      in bind_exn (BlastResult_find_indels ann s1) (\<lambda>s2.
         bind_exn (regions ann s2) (\<lambda>r.
           let s3 = s2\<lparr> br_regions := Some r \<rparr>
           in bind_exn (nt_mutations ann s3) (\<lambda>n.
                let s4 = s3\<lparr> br_nt_mutations := Some n \<rparr>
                in bind_exn (aa_mutations ann s4) (\<lambda>a.
                     Inr (s4\<lparr> br_aa_mutations := Some a \<rparr>))))))"


section \<open>\<open>class Sequence\<close>\<close>

record Sequence =
  sq_id :: string
  sq_sequence :: string
  sq_input :: string
  sq_strand :: string

text \<open>
  Modelled from the spec: \<open>abstar.utils.sequence.Sequence\<close> is not among the sources. The
  spec gives \<open>region(start=0, end=None)\<close> as \<open>raw[start:end]\<close>, clamped and never raising.
\<close>

definition Sequence_region :: "Sequence \<Rightarrow> int \<Rightarrow> int option \<Rightarrow> string" where
  "Sequence_region seq start stop = py_slice (sq_sequence seq) (Some start) stop"

text \<open>
  Modelled from the spec: \<open>reverse_complement()\<close> replaces the stored sequence with its
  reverse complement and flips the strand marker.
\<close>

definition Sequence_reverse_complement :: "aligners \<Rightarrow> Sequence \<Rightarrow> exn + Sequence" where
  "Sequence_reverse_complement env seq =
     bind_exn (reverse_complement env (sq_sequence seq)) (\<lambda>rc.
       Inr (seq\<lparr> sq_sequence := rc,
                 sq_strand := (if sq_strand seq = ''plus'' then ''minus'' else ''plus'') \<rparr>))"

text \<open>Modelled from the spec: \<open>as_fasta(start=0)\<close> renders \<open>">id\n<region(start)>"\<close>.\<close>

definition Sequence_as_fasta :: "Sequence \<Rightarrow> int \<Rightarrow> string" where
  "Sequence_as_fasta seq start = ''>'' @ sq_id seq @ [CHR 0x0A] @ Sequence_region seq start None"


section \<open>\<open>assign_germline\<close>\<close>

definition assign_germline ::
  "aligners \<Rightarrow> annotators \<Rightarrow> Sequence \<Rightarrow> blast_alignment list \<Rightarrow> string \<Rightarrow> exn + BlastResult"
  where
  "assign_germline env ann seq blast_record species =
     bind_exn (BlastResult_init (sq_id seq) blast_record (Sequence_region seq 0 None) species)
       (\<lambda>blast_result.
          bind_exn (if br_gene_type blast_result = Some ''variable''
                    then BlastResult_realign_variable env blast_result
                           (br_top_germline blast_result)
                    else Inr blast_result)
            (BlastResult_annotate ann))"


section \<open>\<open>class DiversityResult\<close> and \<open>assign_d\<close>\<close>

record DiversityResult =
  dr_id :: string
  dr_input_sequence :: string
  dr_alignments :: "Alignment list"
  dr_top_germline :: "string option"
  dr_all_germlines :: "string list"
  dr_top_score :: int
  dr_all_scores :: "int list"
  dr_top_evalue :: "real option"
  dr_all_evalues :: "real list"
  dr_top_bitscore :: "real option"
  dr_all_bitscores :: "real list"
  dr_query_alignment :: string
  dr_germline_alignment :: string
  dr_alignment_midline :: string
  dr_alignment_length :: int
  dr_query_start :: int
  dr_query_end :: int
  dr_germline_start :: int
  dr_germline_end :: int
  dr_sequence :: string
  dr_reading_frame :: int
  dr_gene_type :: string
  dr_chain :: string
  dr_nt_mutations :: "annotation option"

definition DiversityResult_get_top_germline :: "Alignment list \<Rightarrow> exn + string option" where
  "DiversityResult_get_top_germline alignments =
     bind_exn (py_getitem alignments 0) (\<lambda>top_alignment.
       if pa_score (al_alignment top_alignment) > 9
       then Inr (Some (al_target_id top_alignment))
       else Inr None)"

definition DiversityResult_get_all_germlines :: "Alignment list \<Rightarrow> string list" where
  "DiversityResult_get_all_germlines alignments = map al_target_id alignments"

definition DiversityResult_get_top_score :: "Alignment list \<Rightarrow> exn + int" where
  "DiversityResult_get_top_score alignments =
     bind_exn (py_getitem alignments 0) (\<lambda>top_alignment.
       Inr (pa_score (al_alignment top_alignment)))"

definition DiversityResult_get_all_scores :: "Alignment list \<Rightarrow> int list" where
  "DiversityResult_get_all_scores alignments = map (\<lambda>a. pa_score (al_alignment a)) alignments"

definition DiversityResult_get_alignment_midline :: "string \<Rightarrow> string \<Rightarrow> string" where
  "DiversityResult_get_alignment_midline query germ =
     map (\<lambda>(a, b). if a = b then CHR ''|'' else CHR '' '') (zip query germ)"

definition DiversityResult_get_reading_frame :: "int \<Rightarrow> int" where
  "DiversityResult_get_reading_frame germline_start = (germline_start mod 3) + 1"

definition DiversityResult_get_sequence :: "string \<Rightarrow> int \<Rightarrow> int \<Rightarrow> string" where
  "DiversityResult_get_sequence query_alignment query_start query_end =
     py_slice query_alignment (Some query_start) (Some query_end)"

text \<open>
  \<open>DiversityResult.__init__\<close>; \<open>mutations\<close> is \<open>mutations.nt_mutations\<close>, called last on
  the object built so far.
\<close>

definition DiversityResult_init ::
  "(DiversityResult \<Rightarrow> exn + annotation) \<Rightarrow> string \<Rightarrow> string \<Rightarrow> Alignment list
     \<Rightarrow> exn + DiversityResult" where
  "DiversityResult_init mutations seq_id seq alignments =
     bind_exn (DiversityResult_get_top_germline alignments) (\<lambda>top_germline.
     bind_exn (DiversityResult_get_top_score alignments) (\<lambda>top_score.
     bind_exn (py_getitem alignments 0) (\<lambda>top_alignment.
       let query_alignment = al_aligned_query top_alignment;
           germline_alignment = al_aligned_target top_alignment;
           query_start = al_query_begin top_alignment;
           query_end = al_query_end top_alignment;
           germline_start = al_target_begin top_alignment;
           self = \<lparr> dr_id = seq_id,
                    dr_input_sequence = seq,
                    dr_alignments = alignments,
                    dr_top_germline = top_germline,
                    dr_all_germlines = DiversityResult_get_all_germlines alignments,
                    dr_top_score = top_score,
                    dr_all_scores = DiversityResult_get_all_scores alignments,
                    dr_top_evalue = None,
                    dr_all_evalues = [],
                    dr_top_bitscore = None,
                    dr_all_bitscores = [],
                    dr_query_alignment = query_alignment,
                    dr_germline_alignment = germline_alignment,
                    dr_alignment_midline =
                      DiversityResult_get_alignment_midline query_alignment germline_alignment,
                    dr_alignment_length = int (length germline_alignment),
                    dr_query_start = query_start,
                    dr_query_end = query_end,
                    dr_germline_start = germline_start,
                    dr_germline_end = al_target_end top_alignment,
                    dr_sequence =
                      DiversityResult_get_sequence query_alignment query_start query_end,
                    dr_reading_frame = DiversityResult_get_reading_frame germline_start,
                    dr_gene_type = ''diversity'',
                    dr_chain = ''heavy'',
                    dr_nt_mutations = None \<rparr>
       in bind_exn (mutations self) (\<lambda>m. Inr (self\<lparr> dr_nt_mutations := Some m \<rparr>)))))"

definition diversity_params :: aligner_params where
  "diversity_params = \<lparr> ap_match = 3, ap_mismatch = 2, ap_gap_open = 20, ap_gap_extend = 2,
                         ap_report_cigar = True \<rparr>"

text \<open>
  \<open>assign_d\<close>: every D allele and its reverse complement is aligned to the junction; the
  alignments are sorted by score, highest first (Python's sort is stable, also with
  \<open>reverse=True\<close>), and the first five make the result.
\<close>

definition assign_d ::
  "aligners \<Rightarrow> (DiversityResult \<Rightarrow> exn + annotation) \<Rightarrow> string \<Rightarrow> string \<Rightarrow> string
     \<Rightarrow> exn + DiversityResult" where
  "assign_d env mutations seq_id seq species =
     bind_exn (read_fasta env (''ssw/dbs/'' @ py_lower species @ ''_D.fasta'')) (\<lambda>seqs.
     bind_exn (map_exn (record_rc env) seqs) (\<lambda>rc_seqs.
     bind_exn (map_exn (\<lambda>s. bind_exn (ssw_align env diversity_params seq (Some (snd s))
                                        (Some (0, 0)))
                               (Alignment_init (fst s) seq (Some (snd s))))
                 (seqs @ rc_seqs)) (\<lambda>alignments.
       DiversityResult_init mutations seq_id seq
         (take 5 (sort_key (\<lambda>x. - pa_score (al_alignment x)) alignments)))))"


section \<open>\<open>class VDJ\<close>\<close>

text \<open>The command-line arguments the module reads.\<close>

record args =
  args_uaid :: int
  args_isotype :: bool
  args_species :: string

text \<open>
  An attribute that has not been assigned, or holds \<open>None\<close>, is \<open>None\<close>. The junction is
  the string the junction module returns, or \<open>None\<close>.
\<close>

record VDJ =
  vdj_id :: string
  vdj_raw_input :: string
  vdj_raw_query :: string
  vdj_uaid :: string
  vdj_strand :: string
  vdj_isotype_flag :: bool
  vdj_v :: "BlastResult option"
  vdj_j :: "BlastResult option"
  vdj_d :: "DiversityResult option"
  vdj_rearrangement :: bool
  vdj_species :: "string option"
  vdj_chain :: "string option"
  vdj_query_reading_frame :: "int option"
  vdj_v_start :: "int option"
  vdj_v_end :: "int option"
  vdj_j_start :: "int option"
  vdj_j_end :: "int option"
  vdj_d_start :: "int option"
  vdj_d_end :: "int option"
  vdj_n1_start :: "int option"
  vdj_n1_end :: "int option"
  vdj_n2_start :: "int option"
  vdj_n2_end :: "int option"
  vdj_n_start :: "int option"
  vdj_n_end :: "int option"
  vdj_vdj_region_string :: "string option"
  vdj_vdj_nt :: "string option"
  vdj_vdj_aa :: "string option"
  vdj_junction :: "string option"
  vdj_productive :: "bool option"
  vdj_isotype :: "string option"

text \<open>
  What \<open>VDJ\<close> calls and the module does not define: Biopython's translation
  (\<open>str(Seq(s, generic_dna).translate())\<close>) and the junction, productivity and isotype
  modules, which read the object and return a value; each can raise.
\<close>

record vdj_modules =
  translate :: "string \<Rightarrow> exn + string"
  get_junction :: "VDJ \<Rightarrow> exn + string option"
  check_productivity :: "VDJ \<Rightarrow> exn + bool"
  get_isotype :: "VDJ \<Rightarrow> exn + string"

text \<open>
  \<open>_get_chain\<close>: no branch returns when no prefix matches, so the result is \<open>None\<close>.
  (The \<open>except\<close> branch returns \<open>''\<close>; a string's \<open>startswith\<close> does not raise.)
\<close>

definition VDJ_get_chain :: "BlastResult \<Rightarrow> string option" where
  "VDJ_get_chain v =
     (if startswith (br_top_germline v) ''IGH'' then Some ''heavy''
      else if startswith (br_top_germline v) ''IGK'' then Some ''kappa''
      else if startswith (br_top_germline v) ''IGL'' then Some ''lambda''
      else None)"

text \<open>
  \<open>_query_reading_frame\<close> and \<open>_vdj_nt\<close> return \<open>None\<close> from their \<open>except\<close> branch;
  on the integers and strings of a \<open>BlastResult\<close> the \<open>try\<close> block does not raise.
  Python's \<open>%\<close> with the divisor 3 gives a result from 0 to 2, as \<open>mod\<close> does.
\<close>

definition VDJ_query_reading_frame :: "BlastResult \<Rightarrow> int option" where
  "VDJ_query_reading_frame v = Some (br_germline_start v mod 3)"

definition VDJ_vdj_nt :: "BlastResult \<Rightarrow> BlastResult \<Rightarrow> string option" where
  "VDJ_vdj_nt v j =
     Some (strip_gaps
       (br_query_alignment v @
        py_slice (br_input_sequence j) None
          (Some (br_query_start j + int (length (br_query_alignment j))))))"

text \<open>
  \<open>_vdj_aa\<close>: arithmetic on a reading frame that is \<open>None\<close> and \<open>len\<close> of a sequence that
  is \<open>None\<close> raise \<open>TypeError\<close>.
\<close>

definition VDJ_vdj_aa :: "vdj_modules \<Rightarrow> VDJ \<Rightarrow> exn + string" where
  "VDJ_vdj_aa m self =
     (case vdj_query_reading_frame self of
        None \<Rightarrow> Inl TypeError
      | Some rf \<Rightarrow>
          (let offset = (rf * 2) mod 3
           in case vdj_vdj_nt self of
                None \<Rightarrow> Inl TypeError
              | Some nt \<Rightarrow>
                  (let trim = int (length nt) -
                              (int (length (py_slice nt (Some offset) None)) mod 3)
                   in translate m (py_slice nt (Some offset) (Some trim)))))"

definition VDJ_get_v_start :: "BlastResult \<Rightarrow> int" where
  "VDJ_get_v_start v = br_query_start v"

definition VDJ_get_v_end :: "BlastResult \<Rightarrow> int" where
  "VDJ_get_v_end v = int (length (br_query_alignment v))"

definition VDJ_get_j_start :: "int \<Rightarrow> BlastResult \<Rightarrow> int" where
  "VDJ_get_j_start v_end j = v_end + br_query_start j"

definition VDJ_get_j_end :: "int \<Rightarrow> BlastResult \<Rightarrow> int" where
  "VDJ_get_j_end j_start j = j_start + int (length (br_query_alignment j))"

definition VDJ_get_d_start :: "int \<Rightarrow> DiversityResult \<Rightarrow> int" where
  "VDJ_get_d_start v_end d = v_end + dr_query_start d"

definition VDJ_get_d_end :: "int \<Rightarrow> DiversityResult \<Rightarrow> int" where
  "VDJ_get_d_end d_start d = d_start + int (length (dr_query_alignment d))"

text \<open>
  \<open>_get_vdj_region_string\<close>, on the boundaries already assigned; the pair is
  \<open>(d_start, d_end)\<close> when \<open>self.d\<close> is set.
\<close>

definition VDJ_get_vdj_region_string :: "int \<Rightarrow> (int \<times> int) option \<Rightarrow> int \<Rightarrow> int \<Rightarrow> string"
  where
  "VDJ_get_vdj_region_string v_end d j_start j_end =
     py_repeat (CHR ''V'') v_end @
     (case d of
        Some (d_start, d_end) \<Rightarrow>
          py_repeat (CHR ''N'') (d_start - v_end) @
          py_repeat (CHR ''D'') (d_end - d_start) @
          py_repeat (CHR ''N'') (j_start - d_end)
      | None \<Rightarrow> py_repeat (CHR ''N'') (j_start - v_end)) @
     py_repeat (CHR ''J'') (j_end - j_start)"

text \<open>Python's truth value of the junction: \<open>None\<close> and the empty string are false.\<close>

definition truthy :: "string option \<Rightarrow> bool" where
  "truthy x = (case x of None \<Rightarrow> False | Some s \<Rightarrow> s \<noteq> [])"

text \<open>
  \<open>_get_attributes\<close>, called with \<open>self.v\<close> and \<open>self.j\<close> present (passed as \<open>v\<close> and
  \<open>j\<close>). It returns the object as the method leaves it and the exception that interrupted
  it, if one did: the attributes assigned before the exception stay assigned.
\<close>

definition VDJ_get_attributes ::
  "vdj_modules \<Rightarrow> VDJ \<Rightarrow> BlastResult \<Rightarrow> BlastResult \<Rightarrow> VDJ \<times> exn option" where
  "VDJ_get_attributes m self v j =
     (let v_end = VDJ_get_v_end v;
          j_start = VDJ_get_j_start v_end j;
          j_end = VDJ_get_j_end j_start j;
          s1 = self\<lparr> vdj_species := Some (br_species v),
                      vdj_chain := VDJ_get_chain v,
                      vdj_query_reading_frame := VDJ_query_reading_frame v,
                      vdj_v_start := Some (VDJ_get_v_start v),
                      vdj_v_end := Some v_end,
                      vdj_j_start := Some j_start,
                      vdj_j_end := Some j_end \<rparr>;
          s2 = (case vdj_d s1 of
                  Some d \<Rightarrow>
                    (let d_start = VDJ_get_d_start v_end d;
                         d_end = VDJ_get_d_end d_start d
                     in s1\<lparr> vdj_d_start := Some d_start,
                             vdj_d_end := Some d_end,
                             vdj_n1_start := Some (v_end + 1),
                             vdj_n1_end := Some d_start,
                             vdj_n2_start := Some (d_end + 1),
                             vdj_n2_end := Some j_start,
                             vdj_n_start := None,
                             vdj_n_end := None \<rparr>)
                | None \<Rightarrow>
                    s1\<lparr> vdj_d_start := None,
                        vdj_d_end := None,
                        vdj_n1_start := None,
                        vdj_n1_end := None,
                        vdj_n2_start := None,
                        vdj_n2_end := None,
                        vdj_n_start := Some (v_end + 1),
                        vdj_n_end := Some j_start \<rparr>);
          d_bounds = (case vdj_d s2 of
                        Some d \<Rightarrow>
                          Some (VDJ_get_d_start v_end d,
                                VDJ_get_d_end (VDJ_get_d_start v_end d) d)
                      | None \<Rightarrow> None);
          s3 = s2\<lparr> vdj_vdj_region_string :=
                      Some (VDJ_get_vdj_region_string v_end d_bounds j_start j_end) \<rparr>;
          s4 = s3\<lparr> vdj_vdj_nt := VDJ_vdj_nt v j \<rparr>
      in case VDJ_vdj_aa m s4 of
           Inl e \<Rightarrow> (s4, Some e)
         | Inr aa \<Rightarrow>
             (let s5 = s4\<lparr> vdj_vdj_aa := Some aa \<rparr>
              in case get_junction m s5 of
                   Inl e \<Rightarrow> (s5, Some e)
                 | Inr junction \<Rightarrow>
                     (let s6 = s5\<lparr> vdj_junction := junction \<rparr>
                      in case check_productivity m s6 of
                           Inl e \<Rightarrow> (s6, Some e)
                         | Inr productive \<Rightarrow>
                             (let s7 = s6\<lparr> vdj_productive := Some productive \<rparr>
                              in case (if vdj_isotype_flag s7 then get_isotype m s7
                                       else Inr []) of
                                   Inl e \<Rightarrow> (s7, Some e)
                                 | Inr isotype \<Rightarrow>
                                     (let s8 = s7\<lparr> vdj_isotype := Some isotype \<rparr>
                                      in if \<not> truthy (vdj_junction s8)
                                         then (s8\<lparr> vdj_rearrangement := False \<rparr>, None)
                                         else (s8, None))))))"

text \<open>
  \<open>VDJ.__init__\<close>, first the assignments that precede \<open>if v and j\<close>; no derived
  attribute is assigned yet, and \<open>rearrangement\<close> is assigned in each branch that follows.
\<close>

definition VDJ_new ::
  "Sequence \<Rightarrow> args \<Rightarrow> BlastResult option \<Rightarrow> BlastResult option \<Rightarrow> DiversityResult option
     \<Rightarrow> VDJ" where
  "VDJ_new seq args v j d =
     \<lparr> vdj_id = sq_id seq,
       vdj_raw_input = sq_sequence seq,
       vdj_raw_query = sq_input seq,
       vdj_uaid = (if args_uaid args \<noteq> 0
                   then py_slice (sq_input seq) None (Some (args_uaid args))
                   else []),
       vdj_strand = sq_strand seq,
       vdj_isotype_flag = args_isotype args,
       vdj_v = v,
       vdj_j = j,
       vdj_d = d,
       vdj_rearrangement = False,
       vdj_species = None,
       vdj_chain = None,
       vdj_query_reading_frame = None,
       vdj_v_start = None,
       vdj_v_end = None,
       vdj_j_start = None,
       vdj_j_end = None,
       vdj_d_start = None,
       vdj_d_end = None,
       vdj_n1_start = None,
       vdj_n1_end = None,
       vdj_n2_start = None,
       vdj_n2_end = None,
       vdj_n_start = None,
       vdj_n_end = None,
       vdj_vdj_region_string = None,
       vdj_vdj_nt = None,
       vdj_vdj_aa = None,
       vdj_junction = None,
       vdj_productive = None,
       vdj_isotype = None \<rparr>"

text \<open>
  The rest of \<open>VDJ.__init__\<close>: with V and J present, \<open>rearrangement\<close> is set and
  \<open>_get_attributes\<close> runs inside \<open>try\<close>; the bare \<open>except:\<close> catches whatever it raises
  and clears \<open>rearrangement\<close>. Without V or J, \<open>rearrangement\<close> is cleared. The result is
  \<open>Inr\<close> of the object, or \<open>Inl\<close> of an exception that leaves the constructor.
\<close>

definition VDJ_init ::
  "vdj_modules \<Rightarrow> Sequence \<Rightarrow> args \<Rightarrow> BlastResult option \<Rightarrow> BlastResult option
     \<Rightarrow> DiversityResult option \<Rightarrow> exn + VDJ" where
  "VDJ_init m seq args v j d =
     (let self = VDJ_new seq args v j d
      in case (v, j) of
           (Some bv, Some bj) \<Rightarrow>
             (case VDJ_get_attributes m (self\<lparr> vdj_rearrangement := True \<rparr>) bv bj of
                (s, None) \<Rightarrow> Inr s
              | (s, Some e) \<Rightarrow> Inr (s\<lparr> vdj_rearrangement := False \<rparr>))
         | _ \<Rightarrow> Inr (self\<lparr> vdj_rearrangement := False \<rparr>))"


section \<open>\<open>process_sequence_file\<close>\<close>

text \<open>
  A file is its text. What the function calls and the module does not define:
  \<^item> \<open>read_sequences file\<close>: \<open>[Sequence(s) for s in SeqIO.parse(open(file, 'r'), 'fasta')]\<close>;
  \<^item> \<open>blast file species segment\<close>: the module's \<open>blast\<close>, which runs BLASTn on the file
    and parses one record (its list of alignments) per query; it can raise.
\<close>

record search =
  read_sequences :: "string \<Rightarrow> exn + Sequence list"
  blast :: "string \<Rightarrow> string \<Rightarrow> string \<Rightarrow> exn + blast_alignment list list"

text \<open>
  One pass of the variable-gene loop. The \<open>try\<close> block assigns the V gene and turns the
  sequence when the V strand is \<open>'minus'\<close>.
\<close>

definition v_gene_try ::
  "aligners \<Rightarrow> annotators \<Rightarrow> string \<Rightarrow> Sequence \<times> blast_alignment list
     \<Rightarrow> exn + Sequence \<times> BlastResult" where
  "v_gene_try env ann species sv =
     bind_exn (assign_germline env ann (fst sv) (snd sv) species) (\<lambda>v.
       if br_strand v = ''minus''
       then bind_exn (Sequence_reverse_complement env (fst sv)) (\<lambda>seq'. Inr (seq', v))
       else Inr (fst sv, v))"

text \<open>
  The \<open>except\<close> sets \<open>v = None\<close>; the \<open>finally\<close> discards a V assignment that leaves
  ten or fewer characters of the sequence after \<open>len(v.query_alignment) + v.query_start\<close>,
  and appends the pair.
\<close>

definition v_gene_pass ::
  "aligners \<Rightarrow> annotators \<Rightarrow> string \<Rightarrow> Sequence \<times> blast_alignment list
     \<Rightarrow> Sequence \<times> BlastResult option" where
  "v_gene_pass env ann species sv =
     (case v_gene_try env ann species sv of
        Inl e \<Rightarrow> (fst sv, None)
      | Inr (seq, v) \<Rightarrow>
          (let v_end = int (length (br_query_alignment v)) + br_query_start v
           in if length (Sequence_region seq v_end None) \<le> 10 then (seq, None)
              else (seq, Some v)))"

text \<open>\<open>[v[1] for v in vs if v[1]]\<close>, \<open>[v[0] for v in vs if v[1]]\<close>, \<open>[v[0] for v in vs if not v[1]]\<close>.\<close>

definition v_blast_results_of :: "(Sequence \<times> BlastResult option) list \<Rightarrow> BlastResult list" where
  "v_blast_results_of vs = List.map_filter snd vs"

definition seqs_of :: "(Sequence \<times> BlastResult option) list \<Rightarrow> Sequence list" where
  "seqs_of vs = map fst (filter (\<lambda>v. snd v \<noteq> None) vs)"

definition failed_seqs_of :: "(Sequence \<times> BlastResult option) list \<Rightarrow> Sequence list" where
  "failed_seqs_of vs = map fst (filter (\<lambda>v. snd v = None) vs)"

text \<open>\<open>'\n'.join(xs)\<close>.\<close>

fun join_lines :: "string list \<Rightarrow> string" where
  "join_lines [] = []"
| "join_lines [x] = x"
| "join_lines (x # y # ys) = x @ [CHR 0x0A] @ join_lines (y # ys)"

definition j_fastas_of :: "Sequence list \<Rightarrow> BlastResult list \<Rightarrow> string list" where
  "j_fastas_of seqs v_blast_results =
     map (\<lambda>(seq, vbr).
            Sequence_as_fasta seq
              (int (length (br_query_alignment vbr)) + br_query_start vbr
                 + br_fs_indel_adjustment vbr + br_nfs_indel_adjustment vbr))
       (zip seqs v_blast_results)"

definition build_j_blast_input :: "Sequence list \<Rightarrow> BlastResult list \<Rightarrow> string" where
  "build_j_blast_input seqs v_blast_results = join_lines (j_fastas_of seqs v_blast_results)"

text \<open>One pass of the joining-gene loop: any exception leaves \<open>j = None\<close>.\<close>

definition j_gene_pass ::
  "aligners \<Rightarrow> annotators \<Rightarrow> string \<Rightarrow> Sequence \<times> blast_alignment list \<Rightarrow> BlastResult option"
  where
  "j_gene_pass env ann species jdata =
     (case assign_germline env ann (fst jdata) (snd jdata) species of
        Inl e \<Rightarrow> None
      | Inr j \<Rightarrow> Some j)"

text \<open>
  One pass of the loop that builds the \<open>VDJ\<close> objects: nothing is appended when J is
  missing, or when \<open>assign_d\<close> or the constructor raises (the loop's own \<open>try\<close>); a D
  gene is searched for a heavy chain with a non-empty junction.
\<close>

definition vdj_pass ::
  "aligners \<Rightarrow> (DiversityResult \<Rightarrow> exn + annotation) \<Rightarrow> vdj_modules \<Rightarrow> args
     \<Rightarrow> Sequence \<times> BlastResult \<times> BlastResult option \<Rightarrow> VDJ list" where
  "vdj_pass env mutations m args svj =
     (let seq = fst svj; v = fst (snd svj)
      in case snd (snd svj) of
           None \<Rightarrow> []
         | Some j \<Rightarrow>
             if br_chain v = Some ''heavy'' then
               (let junc_start = int (length (br_query_alignment v)) + br_query_start v;
                    junc_end = junc_start + br_query_start j;
                    junction = py_slice (sq_sequence seq) (Some junc_start) (Some junc_end)
                in if junction \<noteq> [] then
                     (case bind_exn
                             (assign_d env mutations (sq_id seq) junction (args_species args))
                             (\<lambda>d. VDJ_init m seq args (Some v) (Some j) (Some d)) of
                        Inl e \<Rightarrow> []
                      | Inr vdj \<Rightarrow> [vdj])
                   else (case VDJ_init m seq args (Some v) (Some j) None of
                           Inl e \<Rightarrow> []
                         | Inr vdj \<Rightarrow> [vdj]))
             else (case VDJ_init m seq args (Some v) (Some j) None of
                     Inl e \<Rightarrow> []
                   | Inr vdj \<Rightarrow> [vdj]))"

definition build_vdjs ::
  "aligners \<Rightarrow> (DiversityResult \<Rightarrow> exn + annotation) \<Rightarrow> vdj_modules \<Rightarrow> args
     \<Rightarrow> (Sequence \<times> BlastResult \<times> BlastResult option) list \<Rightarrow> VDJ list" where
  "build_vdjs env mutations m args xs = concat (map (vdj_pass env mutations m args) xs)"

text \<open>
  \<open>process_sequence_file\<close>: \<open>None\<close> when no sequence keeps a V assignment; an exception of
  the file reader or of BLAST is not caught here.
\<close>

definition process_sequence_file ::
  "search \<Rightarrow> aligners \<Rightarrow> annotators \<Rightarrow> (DiversityResult \<Rightarrow> exn + annotation) \<Rightarrow> vdj_modules
     \<Rightarrow> string \<Rightarrow> args \<Rightarrow> exn + VDJ list option" where
  "process_sequence_file srch env ann mutations m seq_file args =
     bind_exn (read_sequences srch seq_file) (\<lambda>seqs0.
     bind_exn (blast srch seq_file (args_species args) ''V'') (\<lambda>v_blast_records.
       let vs = map (v_gene_pass env ann (args_species args)) (zip seqs0 v_blast_records);
           v_blast_results = v_blast_results_of vs;
           seqs = seqs_of vs;
           failed_seqs = failed_seqs_of vs
       in if v_blast_results = [] then Inr None
          else
            (let j_blastin = build_j_blast_input seqs v_blast_results
             in bind_exn (blast srch j_blastin (args_species args) ''J'') (\<lambda>j_blast_records.
                bind_exn (read_sequences srch j_blastin) (\<lambda>j_seqs.
                  let js = map (j_gene_pass env ann (args_species args))
                             (zip j_seqs j_blast_records)
                  in Inr (Some (build_vdjs env mutations m args
                                  (zip seqs (zip v_blast_results js)))))))))"

section \<open>Vocabulary of the statements and sample inputs\<close>

text \<open>
  A candidate the constructor can read: its title has a first word and it has an HSP. A
  candidate list is well formed when every candidate is, and the first word of the top
  candidate's title (the gene name) has a fourth character.
\<close>

definition candidate_ok :: "blast_alignment \<Rightarrow> bool" where
  "candidate_ok a = (py_split (aln_title a) \<noteq> [] \<and> aln_hsps a \<noteq> [])"

definition candidates_well_formed :: "blast_alignment list \<Rightarrow> bool" where
  "candidates_well_formed alns =
     (list_all candidate_ok alns \<and>
      (case alns of [] \<Rightarrow> True | a # _ \<Rightarrow> 4 \<le> length (hd (py_split (aln_title a)))))"

text \<open>
  The spec's reading of the aligned strings of a search result: the stored query, and a
  germline sequence, sliced by the result's coordinates.
\<close>

definition claimed_query_alignment :: "BlastResult \<Rightarrow> string" where
  "claimed_query_alignment r =
     py_slice (br_input_sequence r) (Some (br_query_start r)) (Some (br_query_end r))"

definition claimed_germline_alignment :: "string \<Rightarrow> BlastResult \<Rightarrow> string" where
  "claimed_germline_alignment germline r =
     py_slice germline (Some (br_germline_start r)) (Some (br_germline_end r))"

text \<open>
  A BLASTn hit with a gap in the aligned query (the germline has a base the query lacks),
  found from the third base of the query \<open>GGACGACGTTT\<close>; and a hit whose gene name has
  three characters.
\<close>

definition gapped_hsp :: hsp where
  "gapped_hsp = \<lparr> hsp_score = 6, hsp_expect = 1 / 1000, hsp_bits = 12,
                   hsp_query = ''ACG-ACGT'', hsp_sbjct = ''ACGTACGT'', hsp_match = ''||| ||||'',
                   hsp_query_start = 3, hsp_sbjct_start = 1 \<rparr>"

definition gapped_candidate :: blast_alignment where
  "gapped_candidate = \<lparr> aln_title = ''IGHV1-2*02 germline'', aln_length = 8,
                         aln_hsps = [gapped_hsp] \<rparr>"

definition short_name_candidate :: blast_alignment where
  "short_name_candidate = \<lparr> aln_title = ''VH1 germline'', aln_length = 8,
                             aln_hsps = [gapped_hsp] \<rparr>"

definition sample_align_res :: PyAlignRes where
  "sample_align_res = \<lparr> pa_cigar_string = ''3M'', pa_ref_begin = 2, pa_ref_end = 4,
                         pa_query_begin = 0, pa_query_end = 2, pa_score = 9 \<rparr>"

text \<open>
  Sample collaborators: a germline database with one V, one J and one D allele; a toy
  aligner that aligns the first three characters of both sequences and scores 9 when they
  agree and 4 when they do not; the reverse complement on the letters \<open>A\<close>, \<open>C\<close>, \<open>G\<close>,
  \<open>T\<close>.
\<close>

definition sample_complement :: "char \<Rightarrow> char" where
  "sample_complement c =
     (if c = CHR ''A'' then CHR ''T'' else if c = CHR ''T'' then CHR ''A''
      else if c = CHR ''C'' then CHR ''G'' else if c = CHR ''G'' then CHR ''C'' else c)"

definition sample_ssw_align ::
  "aligner_params \<Rightarrow> string \<Rightarrow> string option \<Rightarrow> (int \<times> int) option \<Rightarrow> exn + PyAlignRes" where
  "sample_ssw_align p reference target opts =
     (case target of
        None \<Rightarrow> Inl TypeError
      | Some t \<Rightarrow>
          Inr \<lparr> pa_cigar_string = ''3M'', pa_ref_begin = 0, pa_ref_end = 2,
                pa_query_begin = 0, pa_query_end = 2,
                pa_score = (if take 3 reference = take 3 t then 9 else 4) \<rparr>)"

definition sample_env :: aligners where
  "sample_env =
     \<lparr> read_fasta = (\<lambda>path. Inr [(''IGHV1-2*02'', ''ACGTACGT''), (''IGHJ4*02'', ''TTTGG''),
                                   (''IGHD1-1*01'', ''GGTAC'')]),
       ssw_align = sample_ssw_align,
       reverse_complement = (\<lambda>s. Inr (rev (map sample_complement s))),
       record_rc = (\<lambda>s. Inr (fst s, rev (map sample_complement (snd s)))) \<rparr>"

text \<open>A V result and a J result as \<open>BlastResult.__init__\<close> leaves them.\<close>

definition sample_v :: BlastResult where
  "sample_v =
     \<lparr> br_id = ''seq1'', br_alignments = [gapped_candidate],
       br_input_sequence = ''GGACGACGTTT'', br_species = ''human'',
       br_top_germline = ''IGHV1-2*02'', br_all_germlines = [''IGHV1-2*02''],
       br_top_score = 6, br_all_scores = [6], br_top_evalue = 1 / 1000,
       br_all_evalues = [1 / 1000], br_top_bitscore = 12, br_all_bitscores = [12],
       br_strand = ''plus'', br_query_alignment = ''ACG-ACGT'',
       br_germline_alignment = ''ACGTACGT'', br_alignment_midline = ''||| ||||'',
       br_alignment_length = 8, br_query_start = 2, br_query_end = 10,
       br_germline_start = 0, br_germline_end = 8, br_gene_type = Some ''variable'',
       br_chain = Some ''heavy'', br_germline_seq = None, br_fs_indel_adjustment = 0,
       br_nfs_indel_adjustment = 0, br_insertions = [], br_deletions = [],
       br_regions = None, br_nt_mutations = None, br_aa_mutations = None \<rparr>"

definition joining_hsp :: hsp where
  "joining_hsp = \<lparr> hsp_score = 5, hsp_expect = 1 / 100, hsp_bits = 10,
                    hsp_query = ''TTTGG'', hsp_sbjct = ''TTTGG'', hsp_match = ''|||||'',
                    hsp_query_start = 3, hsp_sbjct_start = 1 \<rparr>"

definition joining_candidate :: blast_alignment where
  "joining_candidate = \<lparr> aln_title = ''IGHJ4*02 germline'', aln_length = 5,
                          aln_hsps = [joining_hsp] \<rparr>"

definition sample_j :: BlastResult where
  "sample_j =
     \<lparr> br_id = ''seq1'', br_alignments = [joining_candidate],
       br_input_sequence = ''CCTTTGGAAACCCGGGTTT'', br_species = ''human'',
       br_top_germline = ''IGHJ4*02'', br_all_germlines = [''IGHJ4*02''],
       br_top_score = 5, br_all_scores = [5], br_top_evalue = 1 / 100,
       br_all_evalues = [1 / 100], br_top_bitscore = 10, br_all_bitscores = [10],
       br_strand = ''plus'', br_query_alignment = ''TTTGG'',
       br_germline_alignment = ''TTTGG'', br_alignment_midline = ''|||||'',
       br_alignment_length = 5, br_query_start = 2, br_query_end = 7,
       br_germline_start = 0, br_germline_end = 5, br_gene_type = Some ''joining'',
       br_chain = Some ''heavy'', br_germline_seq = None, br_fs_indel_adjustment = 0,
       br_nfs_indel_adjustment = 0, br_insertions = [], br_deletions = [],
       br_regions = None, br_nt_mutations = None, br_aa_mutations = None \<rparr>"

text \<open>An \<open>Alignment\<close> of the toy aligner, and two D alignments scoring 15 and 9.\<close>

definition sample_alignment :: Alignment where
  "sample_alignment =
     \<lparr> al_target_id = ''IGHV1-2*02'', al_query_seq = ''GGACGACGTTT'',
       al_target_seq = ''ACGTACGT'',
       al_alignment = \<lparr> pa_cigar_string = ''3M'', pa_ref_begin = 2, pa_ref_end = 4,
                        pa_query_begin = 0, pa_query_end = 2, pa_score = 9 \<rparr>,
       al_cigar = ''3M'', al_query_begin = 2, al_query_end = 5, al_target_begin = 0,
       al_target_end = 3, al_aligned_query = ''ACG'', al_aligned_target = ''ACG'' \<rparr>"

definition sample_d_alignment :: "int \<Rightarrow> Alignment" where
  "sample_d_alignment score =
     \<lparr> al_target_id = ''IGHD1-1*01'', al_query_seq = ''TTGGTACTT'',
       al_target_seq = ''GGTAC'',
       al_alignment = \<lparr> pa_cigar_string = ''5M'', pa_ref_begin = 2, pa_ref_end = 6,
                        pa_query_begin = 0, pa_query_end = 4, pa_score = score \<rparr>,
       al_cigar = ''5M'', al_query_begin = 2, al_query_end = 7, al_target_begin = 0,
       al_target_end = 5, al_aligned_query = ''GGTAC'', al_aligned_target = ''GGTAC'' \<rparr>"

definition sample_mutations :: "DiversityResult \<Rightarrow> exn + annotation" where
  "sample_mutations d = Inr []"

text \<open>
  The V result with a query that starts like the germline (the forward orientation scores
  higher), and with one whose reverse complement does.
\<close>

definition sample_v_forward :: BlastResult where
  "sample_v_forward = sample_v\<lparr> br_input_sequence := ''ACGTTTT'' \<rparr>"

definition sample_v_reverse :: BlastResult where
  "sample_v_reverse = sample_v\<lparr> br_input_sequence := ''TTTTCGT'' \<rparr>"


text \<open>
  The offsets of J and D, which are relative to the end of V, are in order: J does not start
  before the end of V and, with a D gene, D does not start before the end of V and ends no
  later than J starts. These are the conditions under which every run of the region map
  has a length.
\<close>

definition offsets_ordered :: "BlastResult \<Rightarrow> DiversityResult option \<Rightarrow> bool" where
  "offsets_ordered j d =
     (case d of
        None \<Rightarrow> 0 \<le> br_query_start j
      | Some dd \<Rightarrow> 0 \<le> dr_query_start dd \<and>
                   dr_query_start dd + int (length (dr_query_alignment dd)) \<le> br_query_start j)"

text \<open>
  Sample collaborators of \<open>VDJ\<close>: modules that return fixed values.
\<close>

definition sample_modules :: vdj_modules where
  "sample_modules =
     \<lparr> translate = (\<lambda>s. Inr (replicate (length s div 3) (CHR ''X''))),
       get_junction = (\<lambda>self. Inr (Some ''TGTGCG'')),
       check_productivity = (\<lambda>self. Inr True),
       get_isotype = (\<lambda>self. Inr ''IgG'') \<rparr>"

definition sample_seq :: Sequence where
  "sample_seq = \<lparr> sq_id = ''seq1'', sq_sequence = ''GGACGACGTTTCCTTTGGAAACCCGGGTTT'',
                  sq_input = ''GGACGACGTTTCCTTTGGAAACCCGGGTTT'', sq_strand = ''plus'' \<rparr>"

definition sample_args :: args where
  "sample_args = \<lparr> args_uaid = 0, args_isotype = False, args_species = ''human'' \<rparr>"

text \<open>
  A D alignment at the start of the junction \<open>CC\<close>, two characters long and scoring 6,
  and the D result built from it.
\<close>

definition junction_alignment :: Alignment where
  "junction_alignment =
     \<lparr> al_target_id = ''IGHD1-1*01'', al_query_seq = ''CC'', al_target_seq = ''GGTCC'',
       al_alignment = \<lparr> pa_cigar_string = ''2M'', pa_ref_begin = 0, pa_ref_end = 1,
                        pa_query_begin = 3, pa_query_end = 4, pa_score = 6 \<rparr>,
       al_cigar = ''2M'', al_query_begin = 0, al_query_end = 2, al_target_begin = 3,
       al_target_end = 5, al_aligned_query = ''CC'', al_aligned_target = ''CC'' \<rparr>"

definition sample_d :: DiversityResult where
  "sample_d =
     \<lparr> dr_id = ''seq1'', dr_input_sequence = ''CC'',
       dr_alignments = [junction_alignment], dr_top_germline = None,
       dr_all_germlines = [''IGHD1-1*01''],
       dr_top_score = 6, dr_all_scores = [6], dr_top_evalue = None, dr_all_evalues = [],
       dr_top_bitscore = None, dr_all_bitscores = [], dr_query_alignment = ''CC'',
       dr_germline_alignment = ''CC'', dr_alignment_midline = ''||'',
       dr_alignment_length = 2, dr_query_start = 0, dr_query_end = 2,
       dr_germline_start = 3, dr_germline_end = 5, dr_sequence = ''CC'',
       dr_reading_frame = 1, dr_gene_type = ''diversity'', dr_chain = ''heavy'',
       dr_nt_mutations = Some [] \<rparr>"

text \<open>
  Modules whose translation raises on a sequence that holds the letter \<open>N\<close>; a light-chain
  V result, and the same with an \<open>N\<close> in its aligned query.
\<close>

definition picky_modules :: vdj_modules where
  "picky_modules =
     sample_modules\<lparr> translate :=
       (\<lambda>s. if CHR ''N'' \<in> set s then Inl (External ''TranslationError'')
            else Inr (replicate (length s div 3) (CHR ''X''))) \<rparr>"

definition sample_v_light :: BlastResult where
  "sample_v_light = sample_v\<lparr> br_top_germline := ''IGKV1-5*01'', br_chain := Some ''kappa'' \<rparr>"

definition sample_v_bad :: BlastResult where
  "sample_v_bad = sample_v_light\<lparr> br_query_alignment := ''ACGNACGT'' \<rparr>"

text \<open>
  Annotation modules that find nothing, and two sequences that start like the sample V
  germline: one with eight characters after the re-aligned V, one with seventeen.
\<close>

definition sample_annotators :: annotators where
  "sample_annotators =
     \<lparr> find_insertions = (\<lambda>r. Inr ([], r)),
       find_deletions = (\<lambda>r. Inr ([], r)),
       regions = (\<lambda>r. Inr ''regions''),
       nt_mutations = (\<lambda>r. Inr ''nt''),
       aa_mutations = (\<lambda>r. Inr ''aa'') \<rparr>"

definition short_seq :: Sequence where
  "short_seq = \<lparr> sq_id = ''short'', sq_sequence = ''ACGTTTTGGCC'',
                 sq_input = ''ACGTTTTGGCC'', sq_strand = ''plus'' \<rparr>"

definition long_seq :: Sequence where
  "long_seq = \<lparr> sq_id = ''long'', sq_sequence = ''ACGTTTTGGCCAAATTTCCC'',
                sq_input = ''ACGTTTTGGCCAAATTTCCC'', sq_strand = ''plus'' \<rparr>"



text \<open>
  A D alignment of five characters at the start of the sequence \<open>CCTTT\<close>: with the sample J
  result, which starts two characters after V, it ends after J has started.
\<close>

definition overlapping_alignment :: Alignment where
  "overlapping_alignment =
     \<lparr> al_target_id = ''IGHD1-1*01'', al_query_seq = ''CCTTT'', al_target_seq = ''GGTCCTTT'',
       al_alignment = \<lparr> pa_cigar_string = ''5M'', pa_ref_begin = 0, pa_ref_end = 4,
                        pa_query_begin = 3, pa_query_end = 7, pa_score = 15 \<rparr>,
       al_cigar = ''5M'', al_query_begin = 0, al_query_end = 5, al_target_begin = 3,
       al_target_end = 8, al_aligned_query = ''CCTTT'', al_aligned_target = ''CCTTT'' \<rparr>"

text \<open>
  The aligner's contract on the start of an alignment: a 0-based position in the reference
  it was built on.
\<close>

definition aligner_in_range :: "aligners \<Rightarrow> bool" where
  "aligner_in_range env =
     (\<forall>p reference target opts res.
        ssw_align env p reference target opts = Inr res \<longrightarrow>
          0 \<le> pa_ref_begin res \<and> pa_ref_begin res \<le> int (length reference))"

section \<open>Basic facts about the Python values\<close>

lemma bind_exn_Inr [simp]: "bind_exn (Inr x) f = f x"
  by (simp add: bind_exn_def)

lemma bind_exn_Inl [simp]: "bind_exn (Inl e) f = Inl e"
  by (simp add: bind_exn_def)

lemma bind_exn_eq_Inr: "(bind_exn m f = Inr y) = (\<exists>x. m = Inr x \<and> f x = Inr y)"
  by (cases m) simp_all

lemma bind_exn_eq_Inl:
  "(bind_exn m f = Inl e) = (m = Inl e \<or> (\<exists>x. m = Inr x \<and> f x = Inl e))"
  by (cases m) simp_all

lemma py_getitem_0: "py_getitem xs 0 = (case xs of [] \<Rightarrow> Inl IndexError | x # _ \<Rightarrow> Inr x)"
  by (cases xs) (simp_all add: py_getitem_def)

lemma py_getitem_error: "py_getitem xs i = Inl e \<Longrightarrow> e = IndexError"
  by (auto simp: py_getitem_def Let_def split: if_splits)

lemma py_getitem_3_iff: "(\<exists>c. py_getitem g 3 = Inr c) = (4 \<le> length g)"
  by (auto simp: py_getitem_def)

lemma map_exn_success:
  "(\<exists>ys. map_exn f xs = Inr ys) = (\<forall>x \<in> set xs. \<exists>y. f x = Inr y)"
  by (induction xs) (auto split: sum.splits)

lemma map_exn_error: "map_exn f xs = Inl e \<Longrightarrow> \<exists>x \<in> set xs. f x = Inl e"
  by (induction xs) (auto split: sum.splits)


section \<open>Construction of a \<open>BlastResult\<close>\<close>

lemma title_gene_eq:
  "title_gene a = (case py_split (aln_title a) of [] \<Rightarrow> Inl IndexError | g # _ \<Rightarrow> Inr g)"
  by (simp add: title_gene_def py_getitem_0)

lemma first_hsp_eq:
  "first_hsp a = (case aln_hsps a of [] \<Rightarrow> Inl IndexError | h # _ \<Rightarrow> Inr h)"
  by (simp add: first_hsp_def py_getitem_0)

lemma map_exn_bind_first_hsp:
  "list_all candidate_ok alns \<Longrightarrow>
     \<exists>ys. map_exn (\<lambda>a. bind_exn (first_hsp a) (\<lambda>h. Inr (f h))) alns = Inr ys"
  unfolding map_exn_success
  by (auto simp: list_all_iff candidate_ok_def first_hsp_eq split: list.splits)

lemma map_exn_title_gene:
  "list_all candidate_ok alns \<Longrightarrow> \<exists>ys. map_exn title_gene alns = Inr ys"
  unfolding map_exn_success
  by (auto simp: list_all_iff candidate_ok_def title_gene_eq split: list.splits)

lemma gene_type_ok: "4 \<le> length g \<Longrightarrow> \<exists>t. BlastResult_gene_type g = Inr t"
  using py_getitem_3_iff [of g] by (auto simp: BlastResult_gene_type_def)

lemma BlastResult_init_empty: "BlastResult_init sid [] inp sp = Inl IndexError"
  by (simp add: BlastResult_init_def BlastResult_get_top_germline_def top_alignment_def
      py_getitem_0)

lemma BlastResult_init_fields:
  assumes "BlastResult_init sid alns inp sp = Inr r"
  shows "\<exists>a rest h hs g gs. alns = a # rest \<and> aln_hsps a = h # hs
     \<and> py_split (aln_title a) = g # gs
     \<and> br_top_germline r = g \<and> br_query_alignment r = hsp_query h
     \<and> br_germline_alignment r = hsp_sbjct h \<and> br_alignment_midline r = hsp_match h
     \<and> br_alignment_length r = aln_length a
     \<and> br_query_start r = hsp_query_start h - 1 \<and> br_germline_start r = hsp_sbjct_start h - 1
     \<and> br_query_end r = br_query_start r + br_alignment_length r
     \<and> br_germline_end r = br_germline_start r + br_alignment_length r
     \<and> br_input_sequence r = inp \<and> br_strand r = ''plus'' \<and> br_species r = sp
     \<and> br_top_score r = hsp_score h \<and> br_top_evalue r = hsp_expect h
     \<and> br_top_bitscore r = hsp_bits h
     \<and> br_chain r = BlastResult_chain g \<and> BlastResult_gene_type g = Inr (br_gene_type r)"
  using assms
  unfolding BlastResult_init_def bind_exn_eq_Inr
  by (clarsimp simp: BlastResult_get_top_germline_def top_alignment_def top_hsp_def
      first_hsp_eq title_gene_eq py_getitem_0
      BlastResult_get_query_alignment_def BlastResult_get_germline_alignment_def
      BlastResult_get_alignment_midline_def
      BlastResult_get_alignment_length_def BlastResult_get_query_start_def
      BlastResult_get_germline_start_def BlastResult_get_top_score_def
      BlastResult_get_top_evalue_def BlastResult_get_top_bitscore_def
      BlastResult_get_query_end_def BlastResult_get_germline_end_def bind_exn_eq_Inr
      split: list.splits)

lemma BlastResult_init_all_ok:
  assumes "BlastResult_init sid alns inp sp = Inr r"
  shows "list_all candidate_ok alns"
proof -
  from assms obtain gs ss where gs: "map_exn title_gene alns = Inr gs"
    and ss: "map_exn (\<lambda>a. bind_exn (first_hsp a) (\<lambda>h. Inr (hsp_score h))) alns = Inr ss"
    unfolding BlastResult_init_def bind_exn_eq_Inr
    by (auto simp: BlastResult_get_all_germlines_def BlastResult_get_all_scores_def)
  from gs have g: "\<forall>a \<in> set alns. \<exists>y. title_gene a = Inr y"
    using map_exn_success [of title_gene alns] by blast
  from ss have s: "\<forall>a \<in> set alns. \<exists>y. bind_exn (first_hsp a) (\<lambda>h. Inr (hsp_score h)) = Inr y"
    using map_exn_success [of "\<lambda>a. bind_exn (first_hsp a) (\<lambda>h. Inr (hsp_score h))" alns]
    by blast
  show ?thesis
    unfolding list_all_iff candidate_ok_def
  proof
    fix a assume a: "a \<in> set alns"
    from g a have "py_split (aln_title a) \<noteq> []"
      by (auto simp: title_gene_eq split: list.splits)
    moreover from s a have "aln_hsps a \<noteq> []"
      by (auto simp: first_hsp_eq bind_exn_eq_Inr split: list.splits)
    ultimately show "py_split (aln_title a) \<noteq> [] \<and> aln_hsps a \<noteq> []" by simp
  qed
qed

lemma BlastResult_init_well_formed:
  assumes "BlastResult_init sid alns inp sp = Inr r"
  shows "alns \<noteq> [] \<and> candidates_well_formed alns"
proof -
  from BlastResult_init_fields [OF assms] obtain a rest g gs t where
    alns: "alns = a # rest" and sp: "py_split (aln_title a) = g # gs"
    and t: "BlastResult_gene_type g = Inr t"
    by blast
  from t have "4 \<le> length g"
    using py_getitem_3_iff [of g] by (auto simp: BlastResult_gene_type_def bind_exn_eq_Inr)
  with alns sp BlastResult_init_all_ok [OF assms] show ?thesis
    by (simp add: candidates_well_formed_def)
qed

lemma BlastResult_init_succeeds:
  assumes ne: "alns \<noteq> []" and wf: "candidates_well_formed alns"
  shows "\<exists>r. BlastResult_init sid alns inp sp = Inr r"
proof -
  from ne obtain a rest where alns: "alns = a # rest" by (cases alns) auto
  from wf alns have all: "list_all candidate_ok alns"
    and len: "4 \<le> length (hd (py_split (aln_title a)))"
    by (simp_all add: candidates_well_formed_def)
  from all alns have "candidate_ok a" by simp
  then obtain g gs h hs where sp: "py_split (aln_title a) = g # gs" and hs: "aln_hsps a = h # hs"
    by (auto simp: candidate_ok_def neq_Nil_conv)
  from len sp have g4: "4 \<le> length g" by simp
  obtain t where t: "BlastResult_gene_type g = Inr t" using gene_type_ok [OF g4] by blast
  obtain ags where ags: "map_exn title_gene alns = Inr ags"
    using map_exn_title_gene [OF all] by blast
  obtain ss where ss: "map_exn (\<lambda>a. bind_exn (first_hsp a) (\<lambda>h. Inr (hsp_score h))) alns = Inr ss"
    using map_exn_bind_first_hsp [OF all] by blast
  obtain es where es: "map_exn (\<lambda>a. bind_exn (first_hsp a) (\<lambda>h. Inr (hsp_expect h))) alns = Inr es"
    using map_exn_bind_first_hsp [OF all] by blast
  obtain bs where bs: "map_exn (\<lambda>a. bind_exn (first_hsp a) (\<lambda>h. Inr (hsp_bits h))) alns = Inr bs"
    using map_exn_bind_first_hsp [OF all] by blast
  have top: "top_alignment alns = Inr a" by (simp add: alns top_alignment_def py_getitem_0)
  have toph: "top_hsp alns = Inr h" by (simp add: top_hsp_def top first_hsp_eq hs)
  have tg: "title_gene a = Inr g" by (simp add: title_gene_eq sp)
  show ?thesis
    by (simp add: BlastResult_init_def BlastResult_get_top_germline_def top tg
        BlastResult_get_all_germlines_def ags BlastResult_get_top_score_def toph
        BlastResult_get_all_scores_def ss BlastResult_get_top_evalue_def
        BlastResult_get_all_evalues_def es BlastResult_get_top_bitscore_def
        BlastResult_get_all_bitscores_def bs BlastResult_get_query_alignment_def
        BlastResult_get_germline_alignment_def BlastResult_get_alignment_midline_def
        BlastResult_get_alignment_length_def BlastResult_get_query_start_def
        BlastResult_get_germline_start_def t)
qed

lemma BlastResult_init_error: "BlastResult_init sid alns inp sp = Inl e \<Longrightarrow> e = IndexError"
  unfolding BlastResult_init_def bind_exn_eq_Inl
  by (auto simp: BlastResult_get_top_germline_def top_alignment_def top_hsp_def first_hsp_def
      title_gene_def BlastResult_get_all_germlines_def BlastResult_get_top_score_def
      BlastResult_get_all_scores_def BlastResult_get_top_evalue_def
      BlastResult_get_all_evalues_def BlastResult_get_top_bitscore_def
      BlastResult_get_all_bitscores_def BlastResult_get_query_alignment_def
      BlastResult_get_germline_alignment_def BlastResult_get_alignment_midline_def
      BlastResult_get_alignment_length_def BlastResult_get_query_start_def
      BlastResult_get_germline_start_def BlastResult_gene_type_def bind_exn_eq_Inl
      dest!: py_getitem_error map_exn_error split: if_splits)

lemma py_split_gapped_title: "py_split ''IGHV1-2*02 germline'' = [''IGHV1-2*02'', ''germline'']"
  by (simp add: py_split_def is_space_def)

lemma py_split_short_title: "py_split ''VH1 germline'' = [''VH1'', ''germline'']"
  by (simp add: py_split_def is_space_def)

lemma gapped_candidate_well_formed: "candidates_well_formed [gapped_candidate]"
  by (simp add: candidates_well_formed_def candidate_ok_def gapped_candidate_def
      py_split_gapped_title)

lemma short_name_candidate_not_well_formed: "\<not> candidates_well_formed [short_name_candidate]"
  by (simp add: candidates_well_formed_def candidate_ok_def short_name_candidate_def
      py_split_short_title)

lemma assign_germline_empty: "assign_germline env ann seq [] sp = Inl IndexError"
  by (simp add: assign_germline_def BlastResult_init_empty)

lemma v_gene_pass_empty: "v_gene_pass env ann sp (seq, []) = (seq, None)"
  by (simp add: v_gene_pass_def v_gene_try_def assign_germline_empty)

lemma j_gene_pass_empty: "j_gene_pass env ann sp (seq, []) = None"
  by (simp add: j_gene_pass_def assign_germline_empty)

text \<open>
  C9 (as amended). Constructing a \<open>BlastResult\<close> from an empty candidate list raises
  \<open>IndexError\<close>, which the constructor does not catch; the passes of the V and J loops
  of \<open>process_sequence_file\<close>, its callers, catch it and record no assignment. From a
  non-empty list the construction succeeds exactly when the list is well formed (every
  candidate has a title word and an HSP, and the top gene name has a fourth character); it
  then holds the top candidate's gene name, scores, aligned strings and coordinates. Every
  other non-empty list raises \<open>IndexError\<close> too.
\<close>

theorem BlastResult_init_outcome:
  "BlastResult_init sid [] inp sp = Inl IndexError \<and>
   v_gene_pass env ann sp (seq, []) = (seq, None) \<and>
   j_gene_pass env ann sp (seq, []) = None \<and>
   (alns \<noteq> [] \<and> candidates_well_formed alns \<longrightarrow>
      (\<exists>r a rest h hs g gs.
         BlastResult_init sid alns inp sp = Inr r \<and> alns = a # rest \<and> aln_hsps a = h # hs \<and>
         py_split (aln_title a) = g # gs \<and>
         br_top_germline r = g \<and> br_top_score r = hsp_score h \<and>
         br_top_evalue r = hsp_expect h \<and> br_top_bitscore r = hsp_bits h \<and>
         br_query_alignment r = hsp_query h \<and> br_germline_alignment r = hsp_sbjct h \<and>
         br_alignment_midline r = hsp_match h \<and> br_alignment_length r = aln_length a \<and>
         br_query_start r = hsp_query_start h - 1 \<and>
         br_germline_start r = hsp_sbjct_start h - 1 \<and>
         BlastResult_gene_type g = Inr (br_gene_type r) \<and>
         br_chain r = BlastResult_chain g)) \<and>
   (alns \<noteq> [] \<and> \<not> candidates_well_formed alns \<longrightarrow>
      BlastResult_init sid alns inp sp = Inl IndexError)"
proof (intro conjI impI)
  show "BlastResult_init sid [] inp sp = Inl IndexError"
    by (rule BlastResult_init_empty)
next
  show "v_gene_pass env ann sp (seq, []) = (seq, None)"
    by (rule v_gene_pass_empty)
next
  show "j_gene_pass env ann sp (seq, []) = None"
    by (rule j_gene_pass_empty)
next
  assume "alns \<noteq> [] \<and> candidates_well_formed alns"
  then obtain r where r: "BlastResult_init sid alns inp sp = Inr r"
    using BlastResult_init_succeeds by blast
  from BlastResult_init_fields [OF r] r
  show "\<exists>r a rest h hs g gs.
         BlastResult_init sid alns inp sp = Inr r \<and> alns = a # rest \<and> aln_hsps a = h # hs \<and>
         py_split (aln_title a) = g # gs \<and>
         br_top_germline r = g \<and> br_top_score r = hsp_score h \<and>
         br_top_evalue r = hsp_expect h \<and> br_top_bitscore r = hsp_bits h \<and>
         br_query_alignment r = hsp_query h \<and> br_germline_alignment r = hsp_sbjct h \<and>
         br_alignment_midline r = hsp_match h \<and> br_alignment_length r = aln_length a \<and>
         br_query_start r = hsp_query_start h - 1 \<and>
         br_germline_start r = hsp_sbjct_start h - 1 \<and>
         BlastResult_gene_type g = Inr (br_gene_type r) \<and>
         br_chain r = BlastResult_chain g"
    by blast
next
  assume a: "alns \<noteq> [] \<and> \<not> candidates_well_formed alns"
  show "BlastResult_init sid alns inp sp = Inl IndexError"
  proof (cases "BlastResult_init sid alns inp sp")
    case (Inl e)
    with BlastResult_init_error [OF Inl] show ?thesis by simp
  next
    case (Inr r)
    with BlastResult_init_well_formed [OF Inr] a show ?thesis by simp
  qed
qed

theorem BlastResult_init_outcome_witness:
  "[gapped_candidate] \<noteq> [] \<and> candidates_well_formed [gapped_candidate] \<and>
   (\<exists>r. BlastResult_init ''seq1'' [gapped_candidate] ''GGACGACGTTT'' ''human'' = Inr r \<and>
        br_top_germline r = ''IGHV1-2*02'' \<and> br_query_start r = 2) \<and>
   [short_name_candidate] \<noteq> [] \<and> \<not> candidates_well_formed [short_name_candidate] \<and>
   BlastResult_init ''seq1'' [short_name_candidate] ''GGACGACGTTT'' ''human'' = Inl IndexError"
proof -
  note a = BlastResult_init_outcome [where sid = "''seq1''" and inp = "''GGACGACGTTT''"
      and sp = "''human''" and alns = "[gapped_candidate]"
      and env = sample_env and ann = sample_annotators and seq = sample_seq,
      THEN conjunct2, THEN conjunct2, THEN conjunct2, THEN conjunct1, rule_format]
  note b = BlastResult_init_outcome [where sid = "''seq1''" and inp = "''GGACGACGTTT''"
      and sp = "''human''" and alns = "[short_name_candidate]"
      and env = sample_env and ann = sample_annotators and seq = sample_seq,
      THEN conjunct2, THEN conjunct2, THEN conjunct2, THEN conjunct2, rule_format]
  have n: "[gapped_candidate] \<noteq> [] \<and> candidates_well_formed [gapped_candidate]"
    using gapped_candidate_well_formed by simp
  have m: "[short_name_candidate] \<noteq> [] \<and> \<not> candidates_well_formed [short_name_candidate]"
    using short_name_candidate_not_well_formed by simp
  from a [OF n] obtain r a0 rest h hs g gs where
    r: "BlastResult_init ''seq1'' [gapped_candidate] ''GGACGACGTTT'' ''human'' = Inr r"
    and l: "[gapped_candidate] = a0 # rest" and h: "aln_hsps a0 = h # hs"
    and g: "py_split (aln_title a0) = g # gs"
    and f: "br_top_germline r = g" "br_query_start r = hsp_query_start h - 1"
    by blast
  from l have a0: "a0 = gapped_candidate" by simp
  from g a0 have "g = ''IGHV1-2*02''"
    by (simp add: gapped_candidate_def py_split_gapped_title)
  moreover from h a0 have "h = gapped_hsp" by (simp add: gapped_candidate_def)
  ultimately have "br_top_germline r = ''IGHV1-2*02'' \<and> br_query_start r = 2"
    using f by (simp add: gapped_hsp_def)
  with r have 1: "\<exists>r. BlastResult_init ''seq1'' [gapped_candidate] ''GGACGACGTTT'' ''human''
        = Inr r \<and> br_top_germline r = ''IGHV1-2*02'' \<and> br_query_start r = 2"
    by blast
  from 1 b [OF m] n m show ?thesis by (intro conjI) simp_all
qed

text \<open>
  The claim as stated fails: a list with one candidate, whose gene name \<open>VH1\<close> has no
  fourth character for \<open>_gene_type\<close> to read, is not empty and its construction raises.
\<close>

theorem BlastResult_init_nonempty_fails:
  "[short_name_candidate] \<noteq> [] \<and>
   BlastResult_init ''seq1'' [short_name_candidate] ''GGACGACGTTT'' ''human'' = Inl IndexError"
proof -
  have "\<not> (\<exists>r. BlastResult_init ''seq1'' [short_name_candidate] ''GGACGACGTTT'' ''human''
              = Inr r)"
    using BlastResult_init_well_formed short_name_candidate_not_well_formed by blast
  then obtain e where
    e: "BlastResult_init ''seq1'' [short_name_candidate] ''GGACGACGTTT'' ''human'' = Inl e"
    by (cases "BlastResult_init ''seq1'' [short_name_candidate] ''GGACGACGTTT'' ''human''") auto
  from BlastResult_init_error [OF e] e show ?thesis by simp
qed

lemma Alignment_init_fields:
  assumes "Alignment_init tid q (Some t) res = Inr al"
  shows "al_query_begin al = pa_ref_begin res \<and> al_query_end al = pa_ref_end res + 1 \<and>
         al_target_begin al = pa_query_begin res \<and> al_target_end al = pa_query_end res + 1 \<and>
         al_query_seq al = q \<and> al_target_seq al = t \<and> al_target_id al = tid \<and>
         al_alignment al = res \<and> al_cigar al = pa_cigar_string res \<and>
         al_aligned_query al = py_slice q (Some (pa_ref_begin res)) (Some (pa_ref_end res + 1)) \<and>
         al_aligned_target al =
           py_slice t (Some (pa_query_begin res)) (Some (pa_query_end res + 1))"
  using assms
  by (auto simp: Alignment_init_def Alignment_get_aligned_target_def
      Alignment_get_aligned_query_def Let_def)

text \<open>
  C3 (as amended). A \<open>BlastResult\<close> built from a candidate list holds, as its aligned
  query and germline strings, the gapped strings of the top candidate's first HSP as BLASTn
  reports them; its starts are the HSP's 1-based starts minus one, and its ends are the
  starts plus \<open>alignment_length\<close>, the top candidate's \<open>length\<close>. The strings are not
  recomputed from the coordinates. The slice identity holds for the \<open>Alignment\<close> objects
  of the re-alignment: the aligned query is the query sliced from \<open>query_begin\<close> to
  \<open>query_end\<close>, the aligned target the target sliced from \<open>target_begin\<close> to
  \<open>target_end\<close>, the ends being the aligner's inclusive ends plus one.
\<close>

theorem BlastResult_alignment_strings:
  assumes "BlastResult_init sid alns inp sp = Inr r"
    and "Alignment_init tid q (Some t) res = Inr al"
  shows "(\<exists>a rest h hs. alns = a # rest \<and> aln_hsps a = h # hs \<and>
            br_query_alignment r = hsp_query h \<and> br_germline_alignment r = hsp_sbjct h \<and>
            br_query_start r = hsp_query_start h - 1 \<and>
            br_germline_start r = hsp_sbjct_start h - 1 \<and>
            br_alignment_length r = aln_length a \<and>
            br_query_end r = br_query_start r + br_alignment_length r \<and>
            br_germline_end r = br_germline_start r + br_alignment_length r) \<and>
         al_aligned_query al =
           py_slice (al_query_seq al) (Some (al_query_begin al)) (Some (al_query_end al)) \<and>
         al_aligned_target al =
           py_slice (al_target_seq al) (Some (al_target_begin al)) (Some (al_target_end al)) \<and>
         al_query_end al = pa_ref_end res + 1 \<and> al_target_end al = pa_query_end res + 1"
proof -
  from BlastResult_init_fields [OF assms(1)]
  have "\<exists>a rest h hs. alns = a # rest \<and> aln_hsps a = h # hs \<and>
            br_query_alignment r = hsp_query h \<and> br_germline_alignment r = hsp_sbjct h \<and>
            br_query_start r = hsp_query_start h - 1 \<and>
            br_germline_start r = hsp_sbjct_start h - 1 \<and>
            br_alignment_length r = aln_length a \<and>
            br_query_end r = br_query_start r + br_alignment_length r \<and>
            br_germline_end r = br_germline_start r + br_alignment_length r"
    by blast
  with Alignment_init_fields [OF assms(2)] show ?thesis by simp
qed

lemma gapped_init_eval:
  "BlastResult_init ''seq1'' [gapped_candidate] ''GGACGACGTTT'' ''human'' = Inr r \<Longrightarrow>
    br_query_alignment r = ''ACG-ACGT'' \<and> claimed_query_alignment r = ''ACGACGTT'' \<and>
    br_query_start r = 2 \<and> br_query_end r = 10"
  by (drule BlastResult_init_fields)
    (auto simp: gapped_candidate_def gapped_hsp_def claimed_query_alignment_def py_slice_def
      py_bound_def)

lemma sample_Alignment_init:
  "\<exists>al. Alignment_init ''IGHD1-1*01'' ''GGACGACGTTT'' (Some ''ACGTT'') sample_align_res = Inr al"
  by (simp add: Alignment_init_def Alignment_get_aligned_target_def Let_def)

theorem BlastResult_alignment_strings_witness:
  "\<exists>r al. BlastResult_init ''seq1'' [gapped_candidate] ''GGACGACGTTT'' ''human'' = Inr r \<and>
     Alignment_init ''IGHD1-1*01'' ''GGACGACGTTT'' (Some ''ACGTT'') sample_align_res = Inr al \<and>
     br_query_alignment r = ''ACG-ACGT'' \<and> br_query_end r = 10 \<and>
     al_aligned_query al = ''ACG'' \<and> al_query_end al = 5"
proof -
  obtain r where r: "BlastResult_init ''seq1'' [gapped_candidate] ''GGACGACGTTT'' ''human'' = Inr r"
    using BlastResult_init_succeeds [OF _ gapped_candidate_well_formed] by blast
  obtain al where al:
    "Alignment_init ''IGHD1-1*01'' ''GGACGACGTTT'' (Some ''ACGTT'') sample_align_res = Inr al"
    using sample_Alignment_init by blast
  from Alignment_init_fields [OF al] have q: "al_query_seq al = ''GGACGACGTTT''"
    and b: "al_query_begin al = 2" by (simp_all add: sample_align_res_def)
  from BlastResult_alignment_strings [OF r al] q b gapped_init_eval [OF r]
  have "br_query_alignment r = ''ACG-ACGT'' \<and> br_query_end r = 10 \<and>
     al_aligned_query al = ''ACG'' \<and> al_query_end al = 5"
    by (simp add: sample_align_res_def py_slice_def py_bound_def)
  with r al show ?thesis by blast
qed

text \<open>
  The claim as stated fails on a gapped hit: BLASTn aligned \<open>ACG-ACGT\<close>, the query sliced
  by the derived coordinates is \<open>ACGACGTT\<close>.
\<close>

theorem BlastResult_alignment_not_slice:
  "\<not> isl (BlastResult_init ''seq1'' [gapped_candidate] ''GGACGACGTTT'' ''human'') \<and>
   br_query_alignment (projr (BlastResult_init ''seq1'' [gapped_candidate] ''GGACGACGTTT'' ''human''))
     \<noteq> claimed_query_alignment
          (projr (BlastResult_init ''seq1'' [gapped_candidate] ''GGACGACGTTT'' ''human''))"
proof -
  obtain r where r: "BlastResult_init ''seq1'' [gapped_candidate] ''GGACGACGTTT'' ''human'' = Inr r"
    using BlastResult_init_succeeds [OF _ gapped_candidate_well_formed] by blast
  from gapped_init_eval [OF r] show ?thesis by (simp add: r)
qed

section \<open>The chain of a \<open>BlastResult\<close>\<close>


lemma startswith_iff_append: "startswith g p = (\<exists>r. g = p @ r)"
  unfolding startswith_def by (metis append_take_drop_id append_eq_conv_conj)

lemma prefixes_exclusive:
  "\<not> (startswith g ''IGH'' \<and> startswith g ''IGK'')"
  "\<not> (startswith g ''IGH'' \<and> startswith g ''IGL'')"
  "\<not> (startswith g ''IGK'' \<and> startswith g ''IGL'')"
  "\<not> (startswith g ''VH'' \<and> startswith g ''IGH'')"
  "\<not> (startswith g ''VH'' \<and> startswith g ''IGK'')"
  "\<not> (startswith g ''VH'' \<and> startswith g ''IGL'')"
  unfolding startswith_iff_append by auto

lemma chain_IGH: "startswith g ''IGH'' \<Longrightarrow> BlastResult_chain g = Some ''heavy''"
  by (simp add: BlastResult_chain_def)

lemma chain_IGK: "startswith g ''IGK'' \<Longrightarrow> BlastResult_chain g = Some ''kappa''"
  using prefixes_exclusive(1) [of g] by (auto simp: BlastResult_chain_def)

lemma chain_IGL: "startswith g ''IGL'' \<Longrightarrow> BlastResult_chain g = Some ''lambda''"
  using prefixes_exclusive(2,3) [of g] by (auto simp: BlastResult_chain_def)

lemma chain_VH: "startswith g ''VH'' \<Longrightarrow> BlastResult_chain g = Some ''heavy''"
  using prefixes_exclusive(4,5,6) [of g] by (auto simp: BlastResult_chain_def)

lemma chain_other:
  "\<not> startswith g ''IGH'' \<Longrightarrow> \<not> startswith g ''IGK'' \<Longrightarrow> \<not> startswith g ''IGL'' \<Longrightarrow>
    \<not> startswith g ''VH'' \<Longrightarrow> BlastResult_chain g = None"
  by (simp add: BlastResult_chain_def)

text \<open>
  C10. The chain accessor has no failing case: for every gene name it returns \<open>'heavy'\<close>
  when the name starts with \<open>IGH\<close>, \<open>'kappa'\<close> for \<open>IGK\<close>, \<open>'lambda'\<close> for \<open>IGL\<close>,
  \<open>'heavy'\<close> also for the prefix \<open>VH\<close>, and \<open>None\<close> for any other name; and the chain of
  a constructed \<open>BlastResult\<close> is the accessor's value on its top germline gene.
\<close>

theorem BlastResult_chain_by_prefix:
  "(startswith g ''IGH'' \<longrightarrow> BlastResult_chain g = Some ''heavy'') \<and>
   (startswith g ''IGK'' \<longrightarrow> BlastResult_chain g = Some ''kappa'') \<and>
   (startswith g ''IGL'' \<longrightarrow> BlastResult_chain g = Some ''lambda'') \<and>
   (startswith g ''VH'' \<longrightarrow> BlastResult_chain g = Some ''heavy'') \<and>
   (\<not> startswith g ''IGH'' \<and> \<not> startswith g ''IGK'' \<and> \<not> startswith g ''IGL'' \<and>
    \<not> startswith g ''VH'' \<longrightarrow> BlastResult_chain g = None) \<and>
   (BlastResult_init sid alns inp sp = Inr r \<longrightarrow>
      br_chain r = BlastResult_chain (br_top_germline r))"
proof -
  have "BlastResult_init sid alns inp sp = Inr r \<longrightarrow>
      br_chain r = BlastResult_chain (br_top_germline r)"
    using BlastResult_init_fields [of sid alns inp sp r] by auto
  with chain_IGH [of g] chain_IGK [of g] chain_IGL [of g] chain_VH [of g] chain_other [of g]
  show ?thesis by blast
qed

theorem BlastResult_chain_by_prefix_witness:
  "startswith ''IGHV1-2*02'' ''IGH'' \<and> BlastResult_chain ''IGHV1-2*02'' = Some ''heavy'' \<and>
   startswith ''IGKV1-5*01'' ''IGK'' \<and> BlastResult_chain ''IGKV1-5*01'' = Some ''kappa'' \<and>
   startswith ''IGLV2-14*01'' ''IGL'' \<and> BlastResult_chain ''IGLV2-14*01'' = Some ''lambda'' \<and>
   startswith ''VH1-18'' ''VH'' \<and> BlastResult_chain ''VH1-18'' = Some ''heavy'' \<and>
   \<not> startswith ''TRBV1'' ''IGH'' \<and> \<not> startswith ''TRBV1'' ''IGK'' \<and>
   \<not> startswith ''TRBV1'' ''IGL'' \<and> \<not> startswith ''TRBV1'' ''VH'' \<and>
   BlastResult_chain ''TRBV1'' = None \<and>
   (\<exists>r. BlastResult_init ''seq1'' [gapped_candidate] ''GGACGACGTTT'' ''human'' = Inr r \<and>
        br_chain r = Some ''heavy'')"
proof -
  obtain r where r: "BlastResult_init ''seq1'' [gapped_candidate] ''GGACGACGTTT'' ''human'' = Inr r"
    using BlastResult_init_succeeds [OF _ gapped_candidate_well_formed] by blast
  from BlastResult_init_fields [OF r] have g: "br_top_germline r = ''IGHV1-2*02''"
    by (auto simp: gapped_candidate_def py_split_gapped_title)
  have s1: "startswith ''IGHV1-2*02'' ''IGH''" by (simp add: startswith_def)
  have s2: "startswith ''IGKV1-5*01'' ''IGK''" by (simp add: startswith_def)
  have s3: "startswith ''IGLV2-14*01'' ''IGL''" by (simp add: startswith_def)
  have s4: "startswith ''VH1-18'' ''VH''" by (simp add: startswith_def)
  have s5: "\<not> startswith ''TRBV1'' ''IGH''" "\<not> startswith ''TRBV1'' ''IGK''"
    "\<not> startswith ''TRBV1'' ''IGL''" "\<not> startswith ''TRBV1'' ''VH''"
    by (simp_all add: startswith_def)
  have c1: "BlastResult_chain ''IGHV1-2*02'' = Some ''heavy''"
    and c0: "br_chain r = BlastResult_chain (br_top_germline r)"
    using BlastResult_chain_by_prefix [of "''IGHV1-2*02''" "''seq1''" "[gapped_candidate]"
        "''GGACGACGTTT''" "''human''" r] s1 r by blast+
  have c2: "BlastResult_chain ''IGKV1-5*01'' = Some ''kappa''"
    using BlastResult_chain_by_prefix [of "''IGKV1-5*01''"] s2 by blast
  have c3: "BlastResult_chain ''IGLV2-14*01'' = Some ''lambda''"
    using BlastResult_chain_by_prefix [of "''IGLV2-14*01''"] s3 by blast
  have c4: "BlastResult_chain ''VH1-18'' = Some ''heavy''"
    using BlastResult_chain_by_prefix [of "''VH1-18''"] s4 by blast
  have c5: "BlastResult_chain ''TRBV1'' = None"
    using BlastResult_chain_by_prefix [of "''TRBV1''"] s5 by blast
  from c0 c1 g r have e: "\<exists>r. BlastResult_init ''seq1'' [gapped_candidate] ''GGACGACGTTT'' ''human'' = Inr r \<and>
        br_chain r = Some ''heavy''" by auto
  from s1 s2 s3 s4 s5 c1 c2 c3 c4 c5 e show ?thesis by (intro conjI)
qed

section \<open>The D-gene result\<close>


lemma DiversityResult_init_fields:
  assumes "DiversityResult_init mutations sid seq alns = Inr d"
  shows "\<exists>a rest. alns = a # rest \<and> dr_top_score d = pa_score (al_alignment a) \<and>
     dr_top_germline d = (if pa_score (al_alignment a) > 9 then Some (al_target_id a) else None) \<and>
     dr_query_start d = al_query_begin a \<and> dr_query_end d = al_query_end a \<and>
     dr_query_alignment d = al_aligned_query a \<and>
     dr_germline_alignment d = al_aligned_target a \<and> dr_alignments d = alns"
  using assms
  unfolding DiversityResult_init_def bind_exn_eq_Inr
  by (cases alns)
    (auto simp: DiversityResult_get_top_germline_def DiversityResult_get_top_score_def
      py_getitem_0 Let_def bind_exn_eq_Inr split: if_splits)

lemma DiversityResult_init_empty: "DiversityResult_init mutations sid seq [] = Inl IndexError"
  by (simp add: DiversityResult_init_def DiversityResult_get_top_germline_def py_getitem_0)

lemma DiversityResult_init_succeeds:
  assumes "\<forall>x. \<exists>m. mutations x = Inr m"
  shows "\<exists>d. DiversityResult_init mutations sid seq (a # rest) = Inr d"
proof -
  obtain t where t: "DiversityResult_get_top_germline (a # rest) = Inr t"
    by (cases "9 < pa_score (al_alignment a)")
      (simp_all add: DiversityResult_get_top_germline_def py_getitem_0)
  show ?thesis
    using assms
    by (simp add: DiversityResult_init_def t DiversityResult_get_top_score_def py_getitem_0
        Let_def bind_exn_eq_Inr)
qed

text \<open>
  C6. For every \<open>DiversityResult\<close> that is constructed, \<open>top_germline\<close> is \<open>None\<close>
  when \<open>top_score\<close> is at most 9, and is the target gene name of the first (top-ranked)
  alignment, whose score \<open>top_score\<close> is, when \<open>top_score\<close> exceeds 9.
\<close>

theorem DiversityResult_top_germline_threshold:
  assumes "DiversityResult_init mutations sid seq alns = Inr d"
  shows "(dr_top_score d \<le> 9 \<longrightarrow> dr_top_germline d = None) \<and>
         (dr_top_score d > 9 \<longrightarrow>
            (\<exists>a rest. alns = a # rest \<and> dr_top_score d = pa_score (al_alignment a) \<and>
                       dr_top_germline d = Some (al_target_id a)))"
  using DiversityResult_init_fields [OF assms] by auto

theorem DiversityResult_top_germline_threshold_witness:
  "(\<exists>d. DiversityResult_init sample_mutations ''seq1'' ''TTGGTACTT'' [sample_d_alignment 9] = Inr d
        \<and> dr_top_score d \<le> 9 \<and> dr_top_germline d = None) \<and>
   (\<exists>d. DiversityResult_init sample_mutations ''seq1'' ''TTGGTACTT'' [sample_d_alignment 15] = Inr d
        \<and> dr_top_score d > 9 \<and> dr_top_germline d = Some ''IGHD1-1*01'')"
proof -
  have m: "\<forall>x. \<exists>m. sample_mutations x = Inr m" by (simp add: sample_mutations_def)
  obtain d1 where d1:
    "DiversityResult_init sample_mutations ''seq1'' ''TTGGTACTT'' [sample_d_alignment 9] = Inr d1"
    using DiversityResult_init_succeeds [OF m] by blast
  obtain d2 where d2:
    "DiversityResult_init sample_mutations ''seq1'' ''TTGGTACTT'' [sample_d_alignment 15] = Inr d2"
    using DiversityResult_init_succeeds [OF m] by blast
  from DiversityResult_init_fields [OF d1] have s1: "dr_top_score d1 = 9"
    by (simp add: sample_d_alignment_def)
  from DiversityResult_init_fields [OF d2] have s2: "dr_top_score d2 = 15"
    by (simp add: sample_d_alignment_def)
  from DiversityResult_top_germline_threshold [OF d1] s1
  have "dr_top_score d1 \<le> 9 \<and> dr_top_germline d1 = None" by simp
  moreover from DiversityResult_top_germline_threshold [OF d2] s2
  have "dr_top_score d2 > 9 \<and> dr_top_germline d2 = Some ''IGHD1-1*01''"
    by (auto simp: sample_d_alignment_def)
  ultimately show ?thesis using d1 d2 by blast
qed

section \<open>Processing a re-alignment\<close>

lemma BlastResult_process_realignment_frame:
  assumes "BlastResult_process_realignment self al = Inr r"
  shows "\<exists>q g. BlastResult_cigar_to_alignment al = Inr (q, g) \<and>
    r = (if br_gene_type self = Some ''variable''
         then self\<lparr> br_query_alignment := q, br_germline_alignment := g,
                    br_alignment_midline :=
                      map (\<lambda>(a, b). if a = b then CHR ''|'' else CHR '' '') (zip q g),
                    br_query_start := al_query_begin al,
                    br_germline_start := al_target_begin al,
                    br_query_end := al_query_end al, br_germline_end := al_target_end al \<rparr>
         else self\<lparr> br_query_alignment := q, br_germline_alignment := g,
                    br_alignment_midline :=
                      map (\<lambda>(a, b). if a = b then CHR ''|'' else CHR '' '') (zip q g),
                    br_query_end := al_query_end al, br_germline_end := al_target_end al \<rparr>)"
proof -
  from assms obtain q g where c: "BlastResult_cigar_to_alignment al = Inr (q, g)"
    unfolding BlastResult_process_realignment_def bind_exn_eq_Inr by auto
  show ?thesis
  proof (cases "br_gene_type self = Some ''variable''")
    case True
    with assms c show ?thesis
      by (simp add: BlastResult_process_realignment_def Let_def
          BlastResult_get_realignment_midline_def)
  next
    case False
    with assms c show ?thesis
      by (simp add: BlastResult_process_realignment_def Let_def
          BlastResult_get_realignment_midline_def)
  qed
qed

lemma BlastResult_realign_joining_processed:
  assumes "BlastResult_realign_joining env self gene = Inr r"
  shows "\<exists>gs al. BlastResult_process_realignment (self\<lparr> br_germline_seq := gs \<rparr>) al = Inr r"
proof -
  from assms obtain gs where
    g: "BlastResult_get_germline_sequence_for_realignment env self gene ''J'' = Inr gs"
    unfolding BlastResult_realign_joining_def bind_exn_eq_Inr by blast
  with assms obtain al where
    "BlastResult_process_realignment (self\<lparr> br_germline_seq := gs \<rparr>) al = Inr r"
    by (cases gs) (auto simp: BlastResult_realign_joining_def Let_def bind_exn_eq_Inr)
  then show ?thesis by blast
qed

text \<open>
  C8. Processing a re-alignment result always sets \<open>query_end\<close> and \<open>germline_end\<close> to
  the alignment's ends; it sets \<open>query_start\<close> and \<open>germline_start\<close> to the alignment's
  starts when the result's gene type is \<open>'variable'\<close>, and leaves both as they were for
  any other gene type. So a joining-gene re-alignment (\<open>realign_joining\<close> on a result of
  gene type \<open>'joining'\<close>) keeps the start coordinates it had before.
\<close>

theorem realignment_updates_start_only_for_variable:
  "(BlastResult_process_realignment self al = Inr r \<longrightarrow>
      br_query_end r = al_query_end al \<and> br_germline_end r = al_target_end al \<and>
      (br_gene_type self = Some ''variable'' \<longrightarrow>
         br_query_start r = al_query_begin al \<and> br_germline_start r = al_target_begin al) \<and>
      (br_gene_type self \<noteq> Some ''variable'' \<longrightarrow>
         br_query_start r = br_query_start self \<and>
         br_germline_start r = br_germline_start self)) \<and>
   (BlastResult_realign_joining env self gene = Inr r' \<and> br_gene_type self = Some ''joining''
      \<longrightarrow> br_query_start r' = br_query_start self \<and>
          br_germline_start r' = br_germline_start self \<and>
          br_gene_type r' = Some ''joining'')"
proof (intro conjI impI)
  assume "BlastResult_realign_joining env self gene = Inr r' \<and> br_gene_type self = Some ''joining''"
  then obtain gs al where
    p: "BlastResult_process_realignment (self\<lparr> br_germline_seq := gs \<rparr>) al = Inr r'"
    and j: "br_gene_type self = Some ''joining''"
    using BlastResult_realign_joining_processed by blast
  from BlastResult_process_realignment_frame [OF p] j
  show "br_query_start r' = br_query_start self" "br_germline_start r' = br_germline_start self"
    "br_gene_type r' = Some ''joining''"
    by auto
qed (auto dest!: BlastResult_process_realignment_frame)


lemma py_int_3: "py_int ''3'' = Inr 3"
  by (simp add: py_int_def py_strip_def is_space_def is_digit_def digits_value_def)

lemma cigar_3M: "pairwise (butlast (cigar_split ''3M'')) = [(''3'', ''M'')]"
  by (simp add: cigar_split_def is_cigar_op_def)

lemma sample_process_realignment:
  "\<exists>r. BlastResult_process_realignment sample_v sample_alignment = Inr r"
  by (simp add: BlastResult_process_realignment_def BlastResult_cigar_to_alignment_def
      sample_alignment_def cigar_3M BlastResult_alignment_chunk_from_cigar_pair_def py_int_3
      py_upper_def Let_def)

lemma sample_realign_joining:
  "\<exists>r. BlastResult_realign_joining sample_env sample_j ''IGHJ4*02'' = Inr r"
  by (simp add: BlastResult_realign_joining_def
      BlastResult_get_germline_sequence_for_realignment_def sample_env_def sample_ssw_align_def
      Alignment_init_def Alignment_get_aligned_target_def
      BlastResult_process_realignment_def BlastResult_cigar_to_alignment_def
      cigar_3M BlastResult_alignment_chunk_from_cigar_pair_def py_int_3
      py_upper_def Let_def)

theorem realignment_updates_start_only_for_variable_witness:
  "(\<exists>r. BlastResult_process_realignment sample_v sample_alignment = Inr r \<and>
        br_gene_type sample_v = Some ''variable'' \<and>
        br_query_start r = 2 \<and> br_germline_start r = 0 \<and>
        br_query_end r = 5 \<and> br_germline_end r = 3) \<and>
   (\<exists>r. BlastResult_process_realignment sample_j sample_alignment = Inr r \<and>
        br_gene_type sample_j \<noteq> Some ''variable'' \<and>
        br_query_start r = br_query_start sample_j \<and>
        br_germline_start r = br_germline_start sample_j \<and>
        br_query_end r = 5 \<and> br_germline_end r = 3) \<and>
   (\<exists>r. BlastResult_realign_joining sample_env sample_j ''IGHJ4*02'' = Inr r \<and>
        br_gene_type sample_j = Some ''joining'' \<and>
        br_query_start r = 2 \<and> br_germline_start r = 0)"
proof -
  obtain r1 where r1: "BlastResult_process_realignment sample_v sample_alignment = Inr r1"
    using sample_process_realignment by blast
  obtain r2 where r2: "BlastResult_process_realignment sample_j sample_alignment = Inr r2"
    by (simp add: BlastResult_process_realignment_def BlastResult_cigar_to_alignment_def
      sample_alignment_def cigar_3M BlastResult_alignment_chunk_from_cigar_pair_def py_int_3
      py_upper_def Let_def)
  obtain r3 where r3: "BlastResult_realign_joining sample_env sample_j ''IGHJ4*02'' = Inr r3"
    using sample_realign_joining by blast
  have tv: "br_gene_type sample_v = Some ''variable''" by (simp add: sample_v_def)
  have tj: "br_gene_type sample_j = Some ''joining''" "br_gene_type sample_j \<noteq> Some ''variable''"
    by (simp_all add: sample_j_def)
  have a: "al_query_begin sample_alignment = 2" "al_target_begin sample_alignment = 0"
    "al_query_end sample_alignment = 5" "al_target_end sample_alignment = 3"
    by (simp_all add: sample_alignment_def)
  have sj: "br_query_start sample_j = 2" "br_germline_start sample_j = 0"
    by (simp_all add: sample_j_def)
  have 1: "br_query_start r1 = 2 \<and> br_germline_start r1 = 0 \<and>
        br_query_end r1 = 5 \<and> br_germline_end r1 = 3"
    using realignment_updates_start_only_for_variable
      [of sample_v sample_alignment r1 sample_env "''IGHJ4*02''" r3] r1 tv a by simp
  have 2: "br_query_start r2 = br_query_start sample_j \<and>
        br_germline_start r2 = br_germline_start sample_j \<and>
        br_query_end r2 = 5 \<and> br_germline_end r2 = 3"
    and 3: "br_query_start r3 = 2 \<and> br_germline_start r3 = 0"
    using realignment_updates_start_only_for_variable
      [of sample_j sample_alignment r2 sample_env "''IGHJ4*02''" r3] r2 r3 tj a sj by simp_all
  from 1 2 3 r1 r2 r3 tv tj show ?thesis by blast
qed

section \<open>Re-alignment of the variable gene\<close>

lemma BlastResult_realign_variable_cases:
  assumes "BlastResult_realign_variable env self gene = Inr r"
  shows "\<exists>gs a rc a_rc.
     BlastResult_get_germline_sequence_for_realignment env self gene ''V'' = Inr gs \<and>
     ssw_align env variable_params (br_input_sequence self) gs None = Inr a \<and>
     reverse_complement env (br_input_sequence self) = Inr rc \<and>
     ssw_align env variable_params rc gs None = Inr a_rc \<and>
     (if pa_score a > pa_score a_rc
      then \<exists>al. Alignment_init gene (br_input_sequence self) gs a = Inr al \<and>
             BlastResult_process_realignment (self\<lparr> br_germline_seq := gs \<rparr>) al = Inr r
      else \<exists>al. Alignment_init gene rc gs a_rc = Inr al \<and>
             BlastResult_process_realignment
               (self\<lparr> br_germline_seq := gs, br_strand := ''minus'',
                       br_input_sequence := rc \<rparr>) al = Inr r)"
  using assms
  unfolding BlastResult_realign_variable_def bind_exn_eq_Inr Let_def
  by (auto simp: bind_exn_eq_Inr split: if_splits)



lemma Alignment_init_alignment:
  "Alignment_init tid q t res = Inr al \<Longrightarrow> al_alignment al = res"
  by (auto simp: Alignment_init_def Let_def bind_exn_eq_Inr)

lemma BlastResult_process_realignment_kept:
  assumes "BlastResult_process_realignment self al = Inr r"
  shows "BlastResult_cigar_to_alignment al = Inr (br_query_alignment r, br_germline_alignment r)"
    and "br_query_end r = al_query_end al" and "br_germline_end r = al_target_end al"
    and "br_strand r = br_strand self" and "br_input_sequence r = br_input_sequence self"
    and "br_top_score r = br_top_score self" and "br_top_germline r = br_top_germline self"
    and "br_gene_type r = br_gene_type self"
proof -
  from BlastResult_process_realignment_frame [OF assms] obtain q g where
    c: "BlastResult_cigar_to_alignment al = Inr (q, g)"
    and r: "r = (if br_gene_type self = Some ''variable''
         then self\<lparr> br_query_alignment := q, br_germline_alignment := g,
                    br_alignment_midline :=
                      map (\<lambda>(a, b). if a = b then CHR ''|'' else CHR '' '') (zip q g),
                    br_query_start := al_query_begin al,
                    br_germline_start := al_target_begin al,
                    br_query_end := al_query_end al, br_germline_end := al_target_end al \<rparr>
         else self\<lparr> br_query_alignment := q, br_germline_alignment := g,
                    br_alignment_midline :=
                      map (\<lambda>(a, b). if a = b then CHR ''|'' else CHR '' '') (zip q g),
                    br_query_end := al_query_end al, br_germline_end := al_target_end al \<rparr>)"
    by blast
  have q: "br_query_alignment r = q" and g: "br_germline_alignment r = g"
    by (cases "br_gene_type self = Some ''variable''"; simp add: r)+
  show "BlastResult_cigar_to_alignment al = Inr (br_query_alignment r, br_germline_alignment r)"
    by (simp add: c q g)
  show "br_query_end r = al_query_end al"
    by (cases "br_gene_type self = Some ''variable''"; simp add: r)
  show "br_germline_end r = al_target_end al"
    by (cases "br_gene_type self = Some ''variable''"; simp add: r)
  show "br_strand r = br_strand self"
    by (cases "br_gene_type self = Some ''variable''"; simp add: r)
  show "br_input_sequence r = br_input_sequence self"
    by (cases "br_gene_type self = Some ''variable''"; simp add: r)
  show "br_top_score r = br_top_score self"
    by (cases "br_gene_type self = Some ''variable''"; simp add: r)
  show "br_top_germline r = br_top_germline self"
    by (cases "br_gene_type self = Some ''variable''"; simp add: r)
  show "br_gene_type r = br_gene_type self"
    by (cases "br_gene_type self = Some ''variable''"; simp add: r)
qed


text \<open>
  C4. When \<open>realign_variable\<close> returns, the stored query and its reverse complement
  have both been aligned to the germline reference, and the alignment that is processed is
  one of highest score: its score is the maximum of the two, so it is never below the
  score of the orientation the result had before. When the reverse complement scores
  higher (and also on a tie) the strand is \<open>'minus'\<close> and the stored input sequence is
  the reverse complement; when the forward orientation scores higher, strand and input
  sequence are unchanged. The BLAST score of the candidate (\<open>top_score\<close>) and its gene
  are not changed by the re-alignment.
\<close>

theorem realign_variable_keeps_best_orientation:
  assumes "BlastResult_realign_variable env self gene = Inr r"
  shows "\<exists>gs a rc a_rc al.
     BlastResult_get_germline_sequence_for_realignment env self gene ''V'' = Inr gs \<and>
     ssw_align env variable_params (br_input_sequence self) gs None = Inr a \<and>
     reverse_complement env (br_input_sequence self) = Inr rc \<and>
     ssw_align env variable_params rc gs None = Inr a_rc \<and>
     Alignment_init gene (br_input_sequence r) gs (al_alignment al) = Inr al \<and>
     BlastResult_cigar_to_alignment al = Inr (br_query_alignment r, br_germline_alignment r) \<and>
     br_query_end r = al_query_end al \<and> br_germline_end r = al_target_end al \<and>
     pa_score (al_alignment al) = max (pa_score a) (pa_score a_rc) \<and>
     pa_score a \<le> pa_score (al_alignment al) \<and>
     pa_score a_rc \<le> pa_score (al_alignment al) \<and>
     (pa_score a_rc < pa_score a \<longrightarrow>
        al_alignment al = a \<and> br_strand r = br_strand self \<and>
        br_input_sequence r = br_input_sequence self) \<and>
     (pa_score a \<le> pa_score a_rc \<longrightarrow>
        al_alignment al = a_rc \<and> br_strand r = ''minus'' \<and> br_input_sequence r = rc) \<and>
     br_top_score r = br_top_score self \<and> br_top_germline r = br_top_germline self"
proof -
  from BlastResult_realign_variable_cases [OF assms] obtain gs a rc a_rc where
    g: "BlastResult_get_germline_sequence_for_realignment env self gene ''V'' = Inr gs"
    and a: "ssw_align env variable_params (br_input_sequence self) gs None = Inr a"
    and rc: "reverse_complement env (br_input_sequence self) = Inr rc"
    and a_rc: "ssw_align env variable_params rc gs None = Inr a_rc"
    and c: "if pa_score a > pa_score a_rc
      then \<exists>al. Alignment_init gene (br_input_sequence self) gs a = Inr al \<and>
             BlastResult_process_realignment (self\<lparr> br_germline_seq := gs \<rparr>) al = Inr r
      else \<exists>al. Alignment_init gene rc gs a_rc = Inr al \<and>
             BlastResult_process_realignment
               (self\<lparr> br_germline_seq := gs, br_strand := ''minus'',
                       br_input_sequence := rc \<rparr>) al = Inr r"
    by blast
  show ?thesis
  proof (cases "pa_score a > pa_score a_rc")
    case True
    with c obtain al where al: "Alignment_init gene (br_input_sequence self) gs a = Inr al"
      and p: "BlastResult_process_realignment (self\<lparr> br_germline_seq := gs \<rparr>) al = Inr r"
      by auto
    from Alignment_init_alignment [OF al] have aa: "al_alignment al = a" .
    note f = BlastResult_process_realignment_kept [OF p]
    have i: "br_input_sequence r = br_input_sequence self" using f(5) by simp
    have s: "br_strand r = br_strand self" using f(4) by simp
    have t: "br_top_score r = br_top_score self" "br_top_germline r = br_top_germline self"
      using f(6,7) by simp_all
    have al': "Alignment_init gene (br_input_sequence r) gs (al_alignment al) = Inr al"
      using al aa i by simp
    have m: "pa_score (al_alignment al) = max (pa_score a) (pa_score a_rc)"
      "pa_score a \<le> pa_score (al_alignment al)" "pa_score a_rc \<le> pa_score (al_alignment al)"
      using True aa by simp_all
    have w1: "pa_score a_rc < pa_score a \<longrightarrow>
        al_alignment al = a \<and> br_strand r = br_strand self \<and>
        br_input_sequence r = br_input_sequence self"
      using aa s i by simp
    have w2: "pa_score a \<le> pa_score a_rc \<longrightarrow>
        al_alignment al = a_rc \<and> br_strand r = ''minus'' \<and> br_input_sequence r = rc"
      using True by simp
    from g a rc a_rc al' f(1) f(2) f(3) m w1 w2 t show ?thesis by blast
  next
    case False
    with c obtain al where al: "Alignment_init gene rc gs a_rc = Inr al"
      and p: "BlastResult_process_realignment
               (self\<lparr> br_germline_seq := gs, br_strand := ''minus'',
                       br_input_sequence := rc \<rparr>) al = Inr r"
      by auto
    from Alignment_init_alignment [OF al] have aa: "al_alignment al = a_rc" .
    note f = BlastResult_process_realignment_kept [OF p]
    have i: "br_input_sequence r = rc" using f(5) by simp
    have s: "br_strand r = ''minus''" using f(4) by simp
    have t: "br_top_score r = br_top_score self" "br_top_germline r = br_top_germline self"
      using f(6,7) by simp_all
    have al': "Alignment_init gene (br_input_sequence r) gs (al_alignment al) = Inr al"
      using al aa i by simp
    have m: "pa_score (al_alignment al) = max (pa_score a) (pa_score a_rc)"
      "pa_score a \<le> pa_score (al_alignment al)" "pa_score a_rc \<le> pa_score (al_alignment al)"
      using False aa by simp_all
    have w1: "pa_score a_rc < pa_score a \<longrightarrow>
        al_alignment al = a \<and> br_strand r = br_strand self \<and>
        br_input_sequence r = br_input_sequence self"
      using False by simp
    have w2: "pa_score a \<le> pa_score a_rc \<longrightarrow>
        al_alignment al = a_rc \<and> br_strand r = ''minus'' \<and> br_input_sequence r = rc"
      using aa s i by simp
    from g a rc a_rc al' f(1) f(2) f(3) m w1 w2 t show ?thesis by blast
  qed
qed


lemma sample_germline_V:
  "BlastResult_get_germline_sequence_for_realignment sample_env self ''IGHV1-2*02'' ''V''
     = Inr (Some ''ACGTACGT'')"
  by (simp add: BlastResult_get_germline_sequence_for_realignment_def sample_env_def)

lemma sample_rc_forward: "reverse_complement sample_env ''ACGTTTT'' = Inr ''AAAACGT''"
  by (simp add: sample_env_def sample_complement_def)

lemma sample_rc_reverse: "reverse_complement sample_env ''TTTTCGT'' = Inr ''ACGAAAA''"
  by (simp add: sample_env_def sample_complement_def)

lemma sample_ssw_scores:
  "ssw_align sample_env p ''ACGTTTT'' (Some ''ACGTACGT'') None = Inr a \<Longrightarrow> pa_score a = 9"
  "ssw_align sample_env p ''AAAACGT'' (Some ''ACGTACGT'') None = Inr a \<Longrightarrow> pa_score a = 4"
  "ssw_align sample_env p ''TTTTCGT'' (Some ''ACGTACGT'') None = Inr a \<Longrightarrow> pa_score a = 4"
  "ssw_align sample_env p ''ACGAAAA'' (Some ''ACGTACGT'') None = Inr a \<Longrightarrow> pa_score a = 9"
  by (auto simp: sample_env_def sample_ssw_align_def)

lemma sample_realign_forward:
  "\<exists>r. BlastResult_realign_variable sample_env sample_v_forward ''IGHV1-2*02'' = Inr r"
  by (simp add: BlastResult_realign_variable_def sample_germline_V sample_v_forward_def
      sample_v_def sample_rc_forward Let_def sample_env_def sample_ssw_align_def
      Alignment_init_def Alignment_get_aligned_target_def
      BlastResult_process_realignment_def BlastResult_cigar_to_alignment_def
      cigar_3M BlastResult_alignment_chunk_from_cigar_pair_def py_int_3 py_upper_def
      BlastResult_get_germline_sequence_for_realignment_def sample_complement_def)

lemma sample_realign_reverse:
  "\<exists>r. BlastResult_realign_variable sample_env sample_v_reverse ''IGHV1-2*02'' = Inr r"
  by (simp add: BlastResult_realign_variable_def sample_germline_V sample_v_reverse_def
      sample_v_def sample_rc_reverse Let_def sample_env_def sample_ssw_align_def
      Alignment_init_def Alignment_get_aligned_target_def
      BlastResult_process_realignment_def BlastResult_cigar_to_alignment_def
      cigar_3M BlastResult_alignment_chunk_from_cigar_pair_def py_int_3 py_upper_def
      BlastResult_get_germline_sequence_for_realignment_def sample_complement_def)

theorem realign_variable_keeps_best_orientation_witness:
  "(\<exists>r. BlastResult_realign_variable sample_env sample_v_forward ''IGHV1-2*02'' = Inr r \<and>
        br_strand r = ''plus'' \<and> br_input_sequence r = ''ACGTTTT'' \<and> br_top_score r = 6) \<and>
   (\<exists>r. BlastResult_realign_variable sample_env sample_v_reverse ''IGHV1-2*02'' = Inr r \<and>
        br_strand r = ''minus'' \<and> br_input_sequence r = ''ACGAAAA'' \<and> br_top_score r = 6)"
proof -
  obtain r1 where r1:
    "BlastResult_realign_variable sample_env sample_v_forward ''IGHV1-2*02'' = Inr r1"
    using sample_realign_forward by blast
  obtain r2 where r2:
    "BlastResult_realign_variable sample_env sample_v_reverse ''IGHV1-2*02'' = Inr r2"
    using sample_realign_reverse by blast
  have i1: "br_input_sequence sample_v_forward = ''ACGTTTT''"
    "br_strand sample_v_forward = ''plus''" "br_top_score sample_v_forward = 6"
    by (simp_all add: sample_v_forward_def sample_v_def)
  have i2: "br_input_sequence sample_v_reverse = ''TTTTCGT''"
    "br_top_score sample_v_reverse = 6"
    by (simp_all add: sample_v_reverse_def sample_v_def)
  obtain gs a rc a_rc and al :: Alignment where
    "BlastResult_get_germline_sequence_for_realignment sample_env sample_v_forward
       ''IGHV1-2*02'' ''V'' = Inr gs"
    and "ssw_align sample_env variable_params (br_input_sequence sample_v_forward) gs None = Inr a"
    and "reverse_complement sample_env (br_input_sequence sample_v_forward) = Inr rc"
    and "ssw_align sample_env variable_params rc gs None = Inr a_rc"
    and w: "pa_score a_rc < pa_score a \<longrightarrow>
        al_alignment al = a \<and> br_strand r1 = br_strand sample_v_forward \<and>
        br_input_sequence r1 = br_input_sequence sample_v_forward"
    and t: "br_top_score r1 = br_top_score sample_v_forward"
    using realign_variable_keeps_best_orientation [OF r1] by blast
  then have "pa_score a = 9" "pa_score a_rc = 4"
    using sample_ssw_scores(1,2) [of variable_params]
    by (simp_all add: i1 sample_germline_V sample_rc_forward)
  with w t i1 have f: "br_strand r1 = ''plus'' \<and> br_input_sequence r1 = ''ACGTTTT'' \<and>
     br_top_score r1 = 6" by simp
  obtain gs a rc a_rc and al :: Alignment where
    "BlastResult_get_germline_sequence_for_realignment sample_env sample_v_reverse
       ''IGHV1-2*02'' ''V'' = Inr gs"
    and "ssw_align sample_env variable_params (br_input_sequence sample_v_reverse) gs None = Inr a"
    and rc: "reverse_complement sample_env (br_input_sequence sample_v_reverse) = Inr rc"
    and "ssw_align sample_env variable_params rc gs None = Inr a_rc"
    and w: "pa_score a \<le> pa_score a_rc \<longrightarrow>
        al_alignment al = a_rc \<and> br_strand r2 = ''minus'' \<and> br_input_sequence r2 = rc"
    and t: "br_top_score r2 = br_top_score sample_v_reverse"
    using realign_variable_keeps_best_orientation [OF r2] by blast
  then have "pa_score a = 4" "pa_score a_rc = 9" "rc = ''ACGAAAA''"
    using sample_ssw_scores(3,4) [of variable_params]
    by (simp_all add: i2 sample_germline_V sample_rc_reverse)
  with w t i2 have g: "br_strand r2 = ''minus'' \<and> br_input_sequence r2 = ''ACGAAAA'' \<and>
     br_top_score r2 = 6" by simp
  from r1 r2 f g show ?thesis by blast
qed

section \<open>The \<open>VDJ\<close> constructor\<close>

lemma VDJ_get_attributes_facts:
  assumes "VDJ_get_attributes m self v j = (s, x)"
  shows "vdj_v s = vdj_v self" and "vdj_j s = vdj_j self" and "vdj_d s = vdj_d self"
    and "vdj_vdj_nt s = VDJ_vdj_nt v j"
    and "vdj_v_end s = Some (VDJ_get_v_end v)"
    and "vdj_j_start s = Some (VDJ_get_j_start (VDJ_get_v_end v) j)"
    and "vdj_j_end s = Some (VDJ_get_j_end (VDJ_get_j_start (VDJ_get_v_end v) j) j)"
    and "vdj_vdj_region_string s =
           Some (VDJ_get_vdj_region_string (VDJ_get_v_end v)
                  (case vdj_d self of
                     Some d \<Rightarrow> Some (VDJ_get_d_start (VDJ_get_v_end v) d,
                                     VDJ_get_d_end (VDJ_get_d_start (VDJ_get_v_end v) d) d)
                   | None \<Rightarrow> None)
                  (VDJ_get_j_start (VDJ_get_v_end v) j)
                  (VDJ_get_j_end (VDJ_get_j_start (VDJ_get_v_end v) j) j))"
    and "vdj_d_start s = map_option (VDJ_get_d_start (VDJ_get_v_end v)) (vdj_d self)"
    and "vdj_d_end s =
           map_option (\<lambda>d. VDJ_get_d_end (VDJ_get_d_start (VDJ_get_v_end v) d) d) (vdj_d self)"
    and "vdj_rearrangement s \<Longrightarrow> vdj_rearrangement self"
    and "x = None \<Longrightarrow> vdj_rearrangement s \<Longrightarrow> truthy (vdj_junction s)"
  using assms
  unfolding VDJ_get_attributes_def Let_def
  by (auto split: sum.splits if_splits option.splits)


lemma VDJ_init_total: "\<exists>r. VDJ_init m seq args v j d = Inr r"
  by (auto simp: VDJ_init_def Let_def split: option.splits prod.splits)


lemma VDJ_init_present:
  assumes "VDJ_init m seq args (Some bv) (Some bj) d = Inr r"
  shows "\<exists>s x. VDJ_get_attributes m ((VDJ_new seq args (Some bv) (Some bj) d)
                   \<lparr> vdj_rearrangement := True \<rparr>) bv bj = (s, x) \<and>
           (case x of None \<Rightarrow> r = s | Some e \<Rightarrow> r = s\<lparr> vdj_rearrangement := False \<rparr>)"
  using assms by (auto simp: VDJ_init_def Let_def split: option.splits prod.splits)

lemma VDJ_new_fields:
  "vdj_v (VDJ_new seq args v j d) = v" "vdj_j (VDJ_new seq args v j d) = j"
  "vdj_d (VDJ_new seq args v j d) = d"
  by (simp_all add: VDJ_new_def)








section \<open>The region map\<close>

lemma VDJ_init_fields:
  assumes "VDJ_init m seq args (Some bv) (Some bj) d = Inr r"
  shows "vdj_v_end r = Some (VDJ_get_v_end bv)"
    and "vdj_j_start r = Some (VDJ_get_j_start (VDJ_get_v_end bv) bj)"
    and "vdj_j_end r = Some (VDJ_get_j_end (VDJ_get_j_start (VDJ_get_v_end bv) bj) bj)"
    and "vdj_d_start r = map_option (VDJ_get_d_start (VDJ_get_v_end bv)) d"
    and "vdj_d_end r =
           map_option (\<lambda>dd. VDJ_get_d_end (VDJ_get_d_start (VDJ_get_v_end bv) dd) dd) d"
    and "vdj_vdj_region_string r =
           Some (VDJ_get_vdj_region_string (VDJ_get_v_end bv)
                  (case d of
                     Some dd \<Rightarrow> Some (VDJ_get_d_start (VDJ_get_v_end bv) dd,
                                     VDJ_get_d_end (VDJ_get_d_start (VDJ_get_v_end bv) dd) dd)
                   | None \<Rightarrow> None)
                  (VDJ_get_j_start (VDJ_get_v_end bv) bj)
                  (VDJ_get_j_end (VDJ_get_j_start (VDJ_get_v_end bv) bj) bj))"
proof -
  from VDJ_init_present [OF assms] obtain s x where
    g: "VDJ_get_attributes m ((VDJ_new seq args (Some bv) (Some bj) d)
                   \<lparr> vdj_rearrangement := True \<rparr>) bv bj = (s, x)"
    and c: "case x of None \<Rightarrow> r = s | Some e \<Rightarrow> r = s\<lparr> vdj_rearrangement := False \<rparr>"
    by blast
  note f = VDJ_get_attributes_facts [OF g]
  from c have e: "vdj_v_end r = vdj_v_end s" "vdj_j_start r = vdj_j_start s"
    "vdj_j_end r = vdj_j_end s" "vdj_d_start r = vdj_d_start s" "vdj_d_end r = vdj_d_end s"
    "vdj_vdj_region_string r = vdj_vdj_region_string s"
    by (cases x; simp)+
  show "vdj_v_end r = Some (VDJ_get_v_end bv)" using e(1) f(5) by simp
  show "vdj_j_start r = Some (VDJ_get_j_start (VDJ_get_v_end bv) bj)" using e(2) f(6) by simp
  show "vdj_j_end r = Some (VDJ_get_j_end (VDJ_get_j_start (VDJ_get_v_end bv) bj) bj)"
    using e(3) f(7) by simp
  show "vdj_d_start r = map_option (VDJ_get_d_start (VDJ_get_v_end bv)) d"
    using e(4) f(9) by (simp add: VDJ_new_fields)
  show "vdj_d_end r =
           map_option (\<lambda>dd. VDJ_get_d_end (VDJ_get_d_start (VDJ_get_v_end bv) dd) dd) d"
    using e(5) f(10) by (simp add: VDJ_new_fields)
  show "vdj_vdj_region_string r =
           Some (VDJ_get_vdj_region_string (VDJ_get_v_end bv)
                  (case d of
                     Some dd \<Rightarrow> Some (VDJ_get_d_start (VDJ_get_v_end bv) dd,
                                     VDJ_get_d_end (VDJ_get_d_start (VDJ_get_v_end bv) dd) dd)
                   | None \<Rightarrow> None)
                  (VDJ_get_j_start (VDJ_get_v_end bv) bj)
                  (VDJ_get_j_end (VDJ_get_j_start (VDJ_get_v_end bv) bj) bj))"
    using e(6) f(8) by (simp add: VDJ_new_fields)
qed

text \<open>
  C7 (as amended). For every \<open>VDJ\<close> object built with V and J assigned, the region-map
  string is \<open>V\<close> repeated \<open>v_end\<close> times, then, with a D gene, \<open>N\<close> runs of
  \<open>d_start - v_end\<close> and \<open>j_start - d_end\<close> characters around a \<open>D\<close> run of
  \<open>d_end - d_start\<close>, or, with no D gene, one \<open>N\<close> run of \<open>j_start - v_end\<close>; then
  \<open>J\<close> repeated \<open>j_end - j_start\<close> times; a run whose count is negative is empty. The
  V, D and J counts are never negative. The length of the string is exactly \<open>j_end\<close> if
  and only if no \<open>N\<close> count is negative: \<open>v_end \<le> j_start\<close> with no D gene,
  \<open>v_end \<le> d_start\<close> and \<open>d_end \<le> j_start\<close> with one. This is the case when J's
  offset from the end of V is not negative and, with a D gene, D's offset is not negative
  and D ends no later than J starts.
\<close>

theorem region_string_runs_and_length:
  assumes "VDJ_init m seq args (Some bv) (Some bj) d = Inr r"
  shows "\<exists>s v_end j_start j_end.
     vdj_vdj_region_string r = Some s \<and> vdj_v_end r = Some v_end \<and>
     vdj_j_start r = Some j_start \<and> vdj_j_end r = Some j_end \<and>
     0 \<le> v_end \<and> j_start \<le> j_end \<and>
     (case d of
        None \<Rightarrow>
          s = replicate (nat v_end) (CHR ''V'') @ replicate (nat (j_start - v_end)) (CHR ''N'') @
              replicate (nat (j_end - j_start)) (CHR ''J'') \<and>
          (int (length s) = j_end) = (v_end \<le> j_start)
      | Some dd \<Rightarrow>
          (\<exists>d_start d_end.
             vdj_d_start r = Some d_start \<and> vdj_d_end r = Some d_end \<and> d_start \<le> d_end \<and>
             s = replicate (nat v_end) (CHR ''V'') @
                 replicate (nat (d_start - v_end)) (CHR ''N'') @
                 replicate (nat (d_end - d_start)) (CHR ''D'') @
                 replicate (nat (j_start - d_end)) (CHR ''N'') @
                 replicate (nat (j_end - j_start)) (CHR ''J'') \<and>
             (int (length s) = j_end) = (v_end \<le> d_start \<and> d_end \<le> j_start))) \<and>
     (offsets_ordered bj d \<longrightarrow> int (length s) = j_end)"
proof (cases d)
  case None
  from VDJ_init_fields [OF assms] None show ?thesis
    by (auto simp: VDJ_get_vdj_region_string_def py_repeat_def VDJ_get_v_end_def
        VDJ_get_j_start_def VDJ_get_j_end_def offsets_ordered_def)
next
  case (Some dd)
  from VDJ_init_fields [OF assms] Some show ?thesis
    by (auto simp: VDJ_get_vdj_region_string_def py_repeat_def VDJ_get_v_end_def
        VDJ_get_j_start_def VDJ_get_j_end_def VDJ_get_d_start_def VDJ_get_d_end_def
        offsets_ordered_def)
qed

theorem region_string_runs_and_length_witness:
  "(\<exists>r. VDJ_init sample_modules sample_seq sample_args (Some sample_v) (Some sample_j) None
          = Inr r \<and> offsets_ordered sample_j None \<and>
        vdj_vdj_region_string r = Some ''VVVVVVVVNNJJJJJ'' \<and> vdj_j_end r = Some 15) \<and>
   (\<exists>r. VDJ_init sample_modules sample_seq sample_args (Some sample_v) (Some sample_j)
          (Some sample_d) = Inr r \<and> offsets_ordered sample_j (Some sample_d) \<and>
        vdj_vdj_region_string r = Some ''VVVVVVVVDDJJJJJ'' \<and> vdj_j_end r = Some 15)"
proof -
  obtain r1 where r1:
    "VDJ_init sample_modules sample_seq sample_args (Some sample_v) (Some sample_j) None = Inr r1"
    using VDJ_init_total by blast
  obtain r2 where r2:
    "VDJ_init sample_modules sample_seq sample_args (Some sample_v) (Some sample_j)
       (Some sample_d) = Inr r2"
    using VDJ_init_total by blast
  have o1: "offsets_ordered sample_j None" by (simp add: offsets_ordered_def sample_j_def)
  have o2: "offsets_ordered sample_j (Some sample_d)"
    by (simp add: offsets_ordered_def sample_j_def sample_d_def)
  have v: "VDJ_get_v_end sample_v = 8" by (simp add: VDJ_get_v_end_def sample_v_def)
  have j: "VDJ_get_j_start 8 sample_j = 10" "VDJ_get_j_end 10 sample_j = 15"
    by (simp_all add: VDJ_get_j_start_def VDJ_get_j_end_def sample_j_def)
  have d: "VDJ_get_d_start 8 sample_d = 8" "VDJ_get_d_end 8 sample_d = 10"
    by (simp_all add: VDJ_get_d_start_def VDJ_get_d_end_def sample_d_def)
  note f1 = VDJ_init_fields [OF r1, unfolded v j]
  note f2 = VDJ_init_fields [OF r2, unfolded v j]
  have n: "replicate 8 c = [c, c, c, c, c, c, c, c]" "replicate 2 c = [c, c]"
    "replicate 5 c = [c, c, c, c, c]" for c :: char
    by (simp_all add: eval_nat_numeral)
  have 1: "vdj_vdj_region_string r1 = Some ''VVVVVVVVNNJJJJJ'' \<and> vdj_j_end r1 = Some 15"
    using region_string_runs_and_length [OF r1] f1(1,2,3)
    by (auto simp: n)
  have 2: "vdj_vdj_region_string r2 = Some ''VVVVVVVVDDJJJJJ'' \<and> vdj_j_end r2 = Some 15"
    using region_string_runs_and_length [OF r2] f2(1,2,3,4,5)
    by (auto simp: n d)
  from r1 r2 o1 o2 1 2 show ?thesis by blast
qed

text \<open>
  The claim as first stated, with the length equal to \<open>j_end\<close> for every object built with
  V and J, fails: with the sample V result (\<open>v_end = 8\<close>), the sample J result (two
  characters after V, five characters long, so \<open>j_start = 10\<close> and \<open>j_end = 15\<close>) and a
  D result of five characters at offset 0 (\<open>d_start = 8\<close>, \<open>d_end = 13\<close>), the count
  \<open>j_start - d_end\<close> is negative, that run is empty, and the string has 18 characters.
\<close>

theorem region_string_longer_than_j_end:
  "\<exists>dd r.
     DiversityResult_init sample_mutations ''seq1'' ''CCTTT'' [overlapping_alignment] = Inr dd \<and>
     VDJ_init sample_modules sample_seq sample_args (Some sample_v) (Some sample_j) (Some dd)
       = Inr r \<and>
     vdj_v_end r = Some 8 \<and> vdj_d_start r = Some 8 \<and> vdj_d_end r = Some 13 \<and>
     vdj_j_start r = Some 10 \<and> vdj_j_end r = Some 15 \<and>
     vdj_vdj_region_string r = Some ''VVVVVVVVDDDDDJJJJJ'' \<and>
     length ''VVVVVVVVDDDDDJJJJJ'' = 18"
proof -
  have "\<forall>x. \<exists>a. sample_mutations x = Inr a" by (simp add: sample_mutations_def)
  from DiversityResult_init_succeeds [OF this] obtain dd where
    dd: "DiversityResult_init sample_mutations ''seq1'' ''CCTTT'' [overlapping_alignment] = Inr dd"
    by blast
  from DiversityResult_init_fields [OF dd]
  have q: "dr_query_start dd = 0" "dr_query_alignment dd = ''CCTTT''"
    by (auto simp: overlapping_alignment_def)
  obtain r where r:
    "VDJ_init sample_modules sample_seq sample_args (Some sample_v) (Some sample_j) (Some dd)
       = Inr r"
    using VDJ_init_total by blast
  have v: "VDJ_get_v_end sample_v = 8" by (simp add: VDJ_get_v_end_def sample_v_def)
  have j: "VDJ_get_j_start 8 sample_j = 10" "VDJ_get_j_end 10 sample_j = 15"
    by (simp_all add: VDJ_get_j_start_def VDJ_get_j_end_def sample_j_def)
  have d: "VDJ_get_d_start 8 dd = 8" "VDJ_get_d_end 8 dd = 13"
    by (simp_all add: VDJ_get_d_start_def VDJ_get_d_end_def q)
  note f = VDJ_init_fields [OF r, unfolded v j]
  have n: "replicate 8 c = [c, c, c, c, c, c, c, c]"
    "replicate 5 c = [c, c, c, c, c]" for c :: char
    by (simp_all add: eval_nat_numeral)
  from f have "vdj_v_end r = Some 8 \<and> vdj_d_start r = Some 8 \<and> vdj_d_end r = Some 13 \<and>
     vdj_j_start r = Some 10 \<and> vdj_j_end r = Some 15 \<and>
     vdj_vdj_region_string r = Some ''VVVVVVVVDDDDDJJJJJ''"
    by (simp add: d VDJ_get_vdj_region_string_def py_repeat_def n)
  with dd r show ?thesis by simp
qed

section \<open>Exceptions while deriving the attributes\<close>

lemma build_vdjs_append:
  "build_vdjs env mutations m args (xs @ x # ys) =
     build_vdjs env mutations m args xs @ vdj_pass env mutations m args x @
     build_vdjs env mutations m args ys"
  by (simp add: build_vdjs_def)

lemma vdj_pass_length: "length (vdj_pass env mutations m args x) \<le> 1"
  by (simp add: vdj_pass_def Let_def split: option.splits sum.splits)

lemma VDJ_init_caught:
  assumes "VDJ_get_attributes m ((VDJ_new seq args (Some bv) (Some bj) d)
             \<lparr> vdj_rearrangement := True \<rparr>) bv bj = (s, Some e)"
  shows "VDJ_init m seq args (Some bv) (Some bj) d = Inr (s\<lparr> vdj_rearrangement := False \<rparr>)"
  using assms by (simp add: VDJ_init_def Let_def)

text \<open>
  C2. The constructor never raises: it returns an object for every input. When the
  derivation of the attributes (chain, reading frame, boundaries, region map, translation,
  junction, productivity, isotype) is interrupted by an exception, the constructor returns
  the object as the derivation left it with \<open>rearrangement = False\<close>. In the loop that
  builds the objects each sequence contributes at most one object, whatever happens to
  it, and the objects of the sequences before and after it are those they would be without
  it.
\<close>

theorem attribute_exception_is_caught:
  "(\<exists>r. VDJ_init m seq args v j d = Inr r) \<and>
   (VDJ_get_attributes m ((VDJ_new seq args (Some bv) (Some bj) d)
        \<lparr> vdj_rearrangement := True \<rparr>) bv bj = (s, Some e) \<longrightarrow>
      VDJ_init m seq args (Some bv) (Some bj) d = Inr (s\<lparr> vdj_rearrangement := False \<rparr>) \<and>
      \<not> vdj_rearrangement (s\<lparr> vdj_rearrangement := False \<rparr>)) \<and>
   build_vdjs env mutations m args (xs @ x # ys) =
     build_vdjs env mutations m args xs @ vdj_pass env mutations m args x @
     build_vdjs env mutations m args ys \<and>
   length (vdj_pass env mutations m args x) \<le> 1"
  using VDJ_init_total [of m seq args v j d] VDJ_init_caught [of m seq args bv bj d s e]
    build_vdjs_append [of env mutations m args xs x ys] vdj_pass_length [of env mutations m args x]
  by simp

lemma sample_bad_raises:
  "\<exists>s. VDJ_get_attributes picky_modules
          ((VDJ_new sample_seq sample_args (Some sample_v_bad) (Some sample_j) None)
             \<lparr> vdj_rearrangement := True \<rparr>) sample_v_bad sample_j
        = (s, Some (External ''TranslationError''))"
  by (simp add: VDJ_get_attributes_def VDJ_new_def VDJ_vdj_aa_def VDJ_query_reading_frame_def
      VDJ_vdj_nt_def picky_modules_def sample_modules_def sample_v_bad_def sample_v_light_def
      sample_v_def sample_j_def strip_gaps_def py_slice_def py_bound_def Let_def)

lemma sample_light_rearranged:
  "\<exists>r. VDJ_init picky_modules sample_seq sample_args (Some sample_v_light) (Some sample_j) None
         = Inr r \<and> vdj_rearrangement r"
  by (simp add: VDJ_init_def VDJ_get_attributes_def VDJ_new_def VDJ_vdj_aa_def
      VDJ_query_reading_frame_def
      VDJ_vdj_nt_def picky_modules_def sample_modules_def sample_v_light_def
      sample_v_def sample_j_def strip_gaps_def py_slice_def py_bound_def sample_args_def
      truthy_def Let_def)

lemma vdj_pass_light:
  assumes "br_chain v \<noteq> Some ''heavy''" and "VDJ_init m seq args (Some v) (Some j) None = Inr r"
  shows "vdj_pass env mutations m args (seq, v, Some j) = [r]"
  using assms by (simp add: vdj_pass_def Let_def)

theorem attribute_exception_is_caught_witness:
  "\<exists>s r1 r2.
     VDJ_get_attributes picky_modules
       ((VDJ_new sample_seq sample_args (Some sample_v_bad) (Some sample_j) None)
          \<lparr> vdj_rearrangement := True \<rparr>) sample_v_bad sample_j
       = (s, Some (External ''TranslationError'')) \<and>
     VDJ_init picky_modules sample_seq sample_args (Some sample_v_bad) (Some sample_j) None
       = Inr r1 \<and>
     build_vdjs sample_env sample_mutations picky_modules sample_args
       [(sample_seq, sample_v_bad, Some sample_j), (sample_seq, sample_v_light, Some sample_j)]
       = [r1, r2] \<and>
     \<not> vdj_rearrangement r1 \<and> vdj_rearrangement r2"
proof -
  obtain s where s: "VDJ_get_attributes picky_modules
       ((VDJ_new sample_seq sample_args (Some sample_v_bad) (Some sample_j) None)
          \<lparr> vdj_rearrangement := True \<rparr>) sample_v_bad sample_j
       = (s, Some (External ''TranslationError''))"
    using sample_bad_raises by blast
  obtain r2 where r2:
    "VDJ_init picky_modules sample_seq sample_args (Some sample_v_light) (Some sample_j) None
       = Inr r2" and rr2: "vdj_rearrangement r2"
    using sample_light_rearranged by blast
  have c: "br_chain sample_v_bad \<noteq> Some ''heavy''" "br_chain sample_v_light \<noteq> Some ''heavy''"
    by (simp_all add: sample_v_bad_def sample_v_light_def)
  note t = attribute_exception_is_caught
    [of picky_modules sample_seq sample_args "Some sample_v_bad" "Some sample_j" None
      sample_v_bad sample_j s "External ''TranslationError''" sample_env sample_mutations
      "[]" "(sample_seq, sample_v_bad, Some sample_j)"
      "[(sample_seq, sample_v_light, Some sample_j)]"]
  from t s have r1: "VDJ_init picky_modules sample_seq sample_args (Some sample_v_bad)
      (Some sample_j) None = Inr (s\<lparr> vdj_rearrangement := False \<rparr>)"
    by blast
  from t have b: "build_vdjs sample_env sample_mutations picky_modules sample_args
       [(sample_seq, sample_v_bad, Some sample_j), (sample_seq, sample_v_light, Some sample_j)]
     = vdj_pass sample_env sample_mutations picky_modules sample_args
         (sample_seq, sample_v_bad, Some sample_j) @
       build_vdjs sample_env sample_mutations picky_modules sample_args
         [(sample_seq, sample_v_light, Some sample_j)]"
    by (simp add: build_vdjs_def)
  have "build_vdjs sample_env sample_mutations picky_modules sample_args
       [(sample_seq, sample_v_bad, Some sample_j), (sample_seq, sample_v_light, Some sample_j)]
     = [s\<lparr> vdj_rearrangement := False \<rparr>, r2]"
    unfolding b
    by (simp add: vdj_pass_light [OF c(1) r1] vdj_pass_light [OF c(2) r2] build_vdjs_def)
  with s r1 rr2 show ?thesis by auto
qed

section \<open>The guard on the sequence left after V\<close>

lemma v_gene_pass_discards:
  assumes "v_gene_try env ann species sv = Inr (seq', v)"
    and "length (Sequence_region seq' (int (length (br_query_alignment v)) + br_query_start v)
           None) \<le> 10"
  shows "v_gene_pass env ann species sv = (seq', None)"
  using assms by (simp add: v_gene_pass_def Let_def)

lemma v_gene_pass_keeps:
  assumes "v_gene_try env ann species sv = Inr (seq', v)"
    and "10 < length (Sequence_region seq' (int (length (br_query_alignment v)) + br_query_start v)
           None)"
  shows "v_gene_pass env ann species sv = (seq', Some v)"
  using assms by (simp add: v_gene_pass_def Let_def)

lemma v_gene_pass_failed:
  assumes "v_gene_try env ann species sv = Inl e"
  shows "v_gene_pass env ann species sv = (fst sv, None)"
  using assms by (simp add: v_gene_pass_def)

lemma failed_seqs_of_discarded:
  "failed_seqs_of (xs @ (s, None) # ys) = failed_seqs_of xs @ s # failed_seqs_of ys"
  by (simp add: failed_seqs_of_def)

lemma seqs_of_discarded: "seqs_of (xs @ (s, None) # ys) = seqs_of (xs @ ys)"
  by (simp add: seqs_of_def)

lemma v_blast_results_of_discarded:
  "v_blast_results_of (xs @ (s, None) # ys) = v_blast_results_of (xs @ ys)"
  by (simp add: v_blast_results_of_def List.map_filter_def)

text \<open>
  C5. After the V gene has been assigned (and re-aligned), a V result that leaves ten or
  fewer characters of the sequence after \<open>len(v.query_alignment) + v.query_start\<close>, that
  is fewer than eleven, is replaced by \<open>None\<close>; one that leaves eleven or more is kept.
  A sequence whose V is \<open>None\<close> is counted among the failed sequences and is absent from
  the sequences and V results that make the J-search input, which is the input the other
  sequences alone would give.
\<close>

theorem short_tail_discards_v_assignment:
  "(v_gene_try env ann species sv = Inr (seq', v) \<and>
    length (Sequence_region seq' (int (length (br_query_alignment v)) + br_query_start v) None)
      \<le> 10 \<longrightarrow>
      v_gene_pass env ann species sv = (seq', None)) \<and>
   (v_gene_try env ann species sv = Inr (seq', v) \<and>
    11 \<le> length (Sequence_region seq' (int (length (br_query_alignment v)) + br_query_start v)
            None) \<longrightarrow>
      v_gene_pass env ann species sv = (seq', Some v)) \<and>
   failed_seqs_of (xs @ (s, None) # ys) = failed_seqs_of xs @ s # failed_seqs_of ys \<and>
   seqs_of (xs @ (s, None) # ys) = seqs_of (xs @ ys) \<and>
   v_blast_results_of (xs @ (s, None) # ys) = v_blast_results_of (xs @ ys) \<and>
   build_j_blast_input (seqs_of (xs @ (s, None) # ys)) (v_blast_results_of (xs @ (s, None) # ys))
     = build_j_blast_input (seqs_of (xs @ ys)) (v_blast_results_of (xs @ ys))"
  using v_gene_pass_discards [of env ann species sv seq' v]
    v_gene_pass_keeps [of env ann species sv seq' v]
  by (simp add: failed_seqs_of_discarded seqs_of_discarded v_blast_results_of_discarded)


lemma sample_init:
  "BlastResult_init sid [gapped_candidate] inp ''human''
     = Inr (sample_v\<lparr> br_id := sid, br_input_sequence := inp \<rparr>)"
  by (simp add: BlastResult_init_def BlastResult_get_top_germline_def top_alignment_def
      top_hsp_def first_hsp_eq title_gene_eq py_getitem_0 gapped_candidate_def gapped_hsp_def
      py_split_gapped_title BlastResult_get_all_germlines_def BlastResult_get_top_score_def
      BlastResult_get_all_scores_def BlastResult_get_top_evalue_def
      BlastResult_get_all_evalues_def BlastResult_get_top_bitscore_def
      BlastResult_get_all_bitscores_def BlastResult_get_query_alignment_def
      BlastResult_get_germline_alignment_def BlastResult_get_alignment_midline_def
      BlastResult_get_alignment_length_def BlastResult_get_query_start_def
      BlastResult_get_germline_start_def BlastResult_gene_type_def py_getitem_def
      BlastResult_get_query_end_def BlastResult_get_germline_end_def BlastResult_chain_def
      startswith_def sample_v_def)


lemma sample_realign_short:
  "\<exists>v. BlastResult_realign_variable sample_env
          (sample_v\<lparr> br_id := ''short'', br_input_sequence := ''ACGTTTTGGCC'' \<rparr>) ''IGHV1-2*02''
        = Inr v \<and> br_query_alignment v = ''ACG'' \<and> br_germline_alignment v = ''ACG'' \<and>
          br_query_start v = 0 \<and> br_strand v = ''plus''"
  by (simp add: BlastResult_realign_variable_def
      BlastResult_get_germline_sequence_for_realignment_def sample_env_def sample_ssw_align_def
      sample_complement_def sample_v_def Alignment_init_def Alignment_get_aligned_target_def
      Alignment_get_aligned_query_def BlastResult_process_realignment_def
      BlastResult_cigar_to_alignment_def cigar_3M
      BlastResult_alignment_chunk_from_cigar_pair_def py_int_3 py_upper_def py_slice_def
      py_bound_def strip_gaps_def BlastResult_get_realignment_midline_def Let_def)


lemma sample_realign_long:
  "\<exists>v. BlastResult_realign_variable sample_env
          (sample_v\<lparr> br_id := ''long'', br_input_sequence := ''ACGTTTTGGCCAAATTTCCC'' \<rparr>)
          ''IGHV1-2*02''
        = Inr v \<and> br_query_alignment v = ''ACG'' \<and> br_germline_alignment v = ''ACG'' \<and>
          br_query_start v = 0 \<and> br_strand v = ''plus''"
  by (simp add: BlastResult_realign_variable_def
      BlastResult_get_germline_sequence_for_realignment_def sample_env_def sample_ssw_align_def
      sample_complement_def sample_v_def Alignment_init_def Alignment_get_aligned_target_def
      Alignment_get_aligned_query_def BlastResult_process_realignment_def
      BlastResult_cigar_to_alignment_def cigar_3M
      BlastResult_alignment_chunk_from_cigar_pair_def py_int_3 py_upper_def py_slice_def
      py_bound_def strip_gaps_def BlastResult_get_realignment_midline_def Let_def)

lemma sample_annotate:
  "\<exists>v'. BlastResult_annotate sample_annotators v = Inr v' \<and>
        br_query_alignment v' = br_query_alignment v \<and>
        br_query_start v' = br_query_start v \<and> br_strand v' = br_strand v"
  by (cases "BlastResult_indel_check
               (v\<lparr> br_fs_indel_adjustment := 0, br_nfs_indel_adjustment := 0,
                    br_insertions := [], br_deletions := [] \<rparr>)")
    (simp_all add: BlastResult_annotate_def BlastResult_find_indels_def sample_annotators_def
      Let_def)

lemma sample_v_gene_try:
  assumes "\<exists>v. BlastResult_realign_variable sample_env
          (sample_v\<lparr> br_id := sq_id seq, br_input_sequence := sq_sequence seq \<rparr>)
          ''IGHV1-2*02''
        = Inr v \<and> br_query_alignment v = ''ACG'' \<and> br_germline_alignment v = ''ACG'' \<and>
          br_query_start v = 0 \<and> br_strand v = ''plus''"
  shows "\<exists>v. v_gene_try sample_env sample_annotators ''human'' (seq, [gapped_candidate])
           = Inr (seq, v) \<and> br_query_alignment v = ''ACG'' \<and> br_query_start v = 0"
proof -
  from assms obtain v where
    r: "BlastResult_realign_variable sample_env
          (sample_v\<lparr> br_id := sq_id seq, br_input_sequence := sq_sequence seq \<rparr>)
          ''IGHV1-2*02'' = Inr v"
    and f: "br_query_alignment v = ''ACG''" "br_query_start v = 0" "br_strand v = ''plus''"
    by blast
  obtain v' where a: "BlastResult_annotate sample_annotators v = Inr v'"
    and f': "br_query_alignment v' = br_query_alignment v" "br_query_start v' = br_query_start v"
      "br_strand v' = br_strand v"
    using sample_annotate [of v] by blast
  have i: "Sequence_region seq 0 None = sq_sequence seq"
    by (simp add: Sequence_region_def py_slice_def py_bound_def)
  have g: "br_gene_type (sample_v\<lparr> br_id := sq_id seq, br_input_sequence := sq_sequence seq \<rparr>)
             = Some ''variable''"
    "br_top_germline (sample_v\<lparr> br_id := sq_id seq, br_input_sequence := sq_sequence seq \<rparr>)
             = ''IGHV1-2*02''"
    by (simp_all add: sample_v_def)
  have "assign_germline sample_env sample_annotators seq [gapped_candidate] ''human'' = Inr v'"
    by (simp add: assign_germline_def i sample_init g r a)
  with f f' show ?thesis by (simp add: v_gene_try_def)
qed

theorem short_tail_discards_v_assignment_witness:
  "(\<exists>v. v_gene_try sample_env sample_annotators ''human'' (short_seq, [gapped_candidate])
           = Inr (short_seq, v) \<and>
         length (Sequence_region short_seq
                   (int (length (br_query_alignment v)) + br_query_start v) None) \<le> 10 \<and>
         v_gene_pass sample_env sample_annotators ''human'' (short_seq, [gapped_candidate])
           = (short_seq, None)) \<and>
   (\<exists>v. v_gene_try sample_env sample_annotators ''human'' (long_seq, [gapped_candidate])
           = Inr (long_seq, v) \<and>
         11 \<le> length (Sequence_region long_seq
                   (int (length (br_query_alignment v)) + br_query_start v) None) \<and>
         v_gene_pass sample_env sample_annotators ''human'' (long_seq, [gapped_candidate])
           = (long_seq, Some v) \<and>
         failed_seqs_of [(short_seq, None), (long_seq, Some v)] = [short_seq] \<and>
         seqs_of [(short_seq, None), (long_seq, Some v)] = [long_seq])"
proof -
  obtain v1 where t1: "v_gene_try sample_env sample_annotators ''human''
      (short_seq, [gapped_candidate]) = Inr (short_seq, v1)"
    and f1: "br_query_alignment v1 = ''ACG''" "br_query_start v1 = 0"
    using sample_v_gene_try [of short_seq] sample_realign_short by (auto simp: short_seq_def)
  obtain v2 where t2: "v_gene_try sample_env sample_annotators ''human''
      (long_seq, [gapped_candidate]) = Inr (long_seq, v2)"
    and f2: "br_query_alignment v2 = ''ACG''" "br_query_start v2 = 0"
    using sample_v_gene_try [of long_seq] sample_realign_long by (auto simp: long_seq_def)
  have l1: "length (Sequence_region short_seq
                   (int (length (br_query_alignment v1)) + br_query_start v1) None) \<le> 10"
    by (simp add: f1 Sequence_region_def short_seq_def py_slice_def py_bound_def)
  have l2: "11 \<le> length (Sequence_region long_seq
                   (int (length (br_query_alignment v2)) + br_query_start v2) None)"
    by (simp add: f2 Sequence_region_def long_seq_def py_slice_def py_bound_def)
  note a = short_tail_discards_v_assignment
    [of sample_env sample_annotators "''human''" "(short_seq, [gapped_candidate])" short_seq v1
      "[]" short_seq "[(long_seq, Some v2)]"]
  note b = short_tail_discards_v_assignment
    [of sample_env sample_annotators "''human''" "(long_seq, [gapped_candidate])" long_seq v2]
  from a t1 l1 have p1: "v_gene_pass sample_env sample_annotators ''human''
     (short_seq, [gapped_candidate]) = (short_seq, None)" by blast
  from b t2 l2 have p2: "v_gene_pass sample_env sample_annotators ''human''
     (long_seq, [gapped_candidate]) = (long_seq, Some v2)" by blast
  from a have fs: "failed_seqs_of [(short_seq, None), (long_seq, Some v2)] = [short_seq]"
    and ss: "seqs_of [(short_seq, None), (long_seq, Some v2)] = [long_seq]"
    by (simp_all add: failed_seqs_of_def seqs_of_def)
  from t1 l1 p1 t2 l2 p2 fs ss show ?thesis by blast
qed

section \<open>The offsets of the objects the pipeline builds\<close>

text \<open>
  The loop of \<open>process_sequence_file\<close> that builds the \<open>VDJ\<close> objects searches the D
  gene in the junction it cuts out between the end of V and the start of J. When the
  aligner reports starts inside its reference and the starts of V and J are not negative
  (BLASTn's starts are 1-based), every object the loop builds has its offsets in order.
\<close>

lemma map_exn_member:
  "map_exn f xs = Inr ys \<Longrightarrow> y \<in> set ys \<Longrightarrow> \<exists>x \<in> set xs. f x = Inr y"
  by (induction xs arbitrary: ys) (auto split: sum.splits)

lemma py_slice_length_from:
  assumes "0 \<le> b" and "b \<le> int (length xs)"
  shows "b + int (length (py_slice xs (Some b) e)) \<le> int (length xs)"
  using assms by (cases e) (auto simp: py_slice_def py_bound_def Let_def)

lemma py_slice_length_span:
  assumes "0 \<le> a" and "0 \<le> k"
  shows "int (length (py_slice xs (Some a) (Some (a + k)))) \<le> k"
  using assms by (auto simp: py_slice_def py_bound_def Let_def)

lemma assign_d_offsets:
  assumes d: "assign_d env mutations sid junction species = Inr d"
    and c: "aligner_in_range env"
  shows "0 \<le> dr_query_start d \<and>
         dr_query_start d + int (length (dr_query_alignment d)) \<le> int (length junction)"
proof -
  from d obtain recs and alignments :: "Alignment list" where
    m: "map_exn (\<lambda>s. bind_exn (ssw_align env diversity_params junction (Some (snd s))
                                        (Some (0, 0)))
                               (Alignment_init (fst s) junction (Some (snd s))))
          recs = Inr alignments"
    and i: "DiversityResult_init mutations sid junction
              (take 5 (sort_key (\<lambda>x. - pa_score (al_alignment x)) alignments)) = Inr d"
    unfolding assign_d_def bind_exn_eq_Inr by blast
  from DiversityResult_init_fields [OF i] obtain a rest where
    t: "take 5 (sort_key (\<lambda>x. - pa_score (al_alignment x)) alignments) = a # rest"
    and q: "dr_query_start d = al_query_begin a" "dr_query_alignment d = al_aligned_query a"
    by blast
  have "a \<in> set (take 5 (sort_key (\<lambda>x. - pa_score (al_alignment x)) alignments))"
    by (simp add: t)
  then have "a \<in> set alignments"
    using set_take_subset by fastforce
  from map_exn_member [OF m this] obtain s res where
    r: "ssw_align env diversity_params junction (Some (snd s)) (Some (0, 0)) = Inr res"
    and al: "Alignment_init (fst s) junction (Some (snd s)) res = Inr a"
    by (auto simp: bind_exn_eq_Inr)
  from c r have b: "0 \<le> pa_ref_begin res" "pa_ref_begin res \<le> int (length junction)"
    unfolding aligner_in_range_def by blast+
  from Alignment_init_fields [OF al] have
    "al_query_begin a = pa_ref_begin res"
    "al_aligned_query a = py_slice junction (Some (pa_ref_begin res)) (Some (pa_ref_end res + 1))"
    by simp_all
  with q b py_slice_length_from [OF b, of "Some (pa_ref_end res + 1)"] show ?thesis by simp
qed

lemma vdj_pass_offsets_ordered:
  assumes c: "aligner_in_range env"
    and v: "0 \<le> br_query_start v" and j: "0 \<le> br_query_start j"
  shows "vdj_pass env mutations m args (seq, v, Some j) = [] \<or>
         (\<exists>d r. offsets_ordered j d \<and> VDJ_init m seq args (Some v) (Some j) d = Inr r \<and>
                 vdj_pass env mutations m args (seq, v, Some j) = [r])"
proof -
  let ?a = "int (length (br_query_alignment v)) + br_query_start v"
  let ?junction = "py_slice (sq_sequence seq) (Some ?a) (Some (?a + br_query_start j))"
  have none: "offsets_ordered j None" using j by (simp add: offsets_ordered_def)
  obtain r0 where r0: "VDJ_init m seq args (Some v) (Some j) None = Inr r0"
    using VDJ_init_total by blast
  show ?thesis
  proof (cases "br_chain v = Some ''heavy'' \<and> ?junction \<noteq> []")
    case False
    then have "vdj_pass env mutations m args (seq, v, Some j) = [r0]"
      by (auto simp: vdj_pass_def Let_def r0)
    with none r0 show ?thesis by blast
  next
    case True
    show ?thesis
    proof (cases "assign_d env mutations (sq_id seq) ?junction (args_species args)")
      case (Inl e)
      with True have "vdj_pass env mutations m args (seq, v, Some j) = []"
        by (simp add: vdj_pass_def Let_def)
      then show ?thesis by simp
    next
      case (Inr d)
      obtain r where r: "VDJ_init m seq args (Some v) (Some j) (Some d) = Inr r"
        using VDJ_init_total by blast
      from True Inr r have p: "vdj_pass env mutations m args (seq, v, Some j) = [r]"
        by (simp add: vdj_pass_def Let_def)
      have "0 \<le> ?a" using v by simp
      from py_slice_length_span [OF this j]
      have "int (length ?junction) \<le> br_query_start j" .
      with assign_d_offsets [OF Inr c] have "offsets_ordered j (Some d)"
        by (simp add: offsets_ordered_def)
      with r p show ?thesis by blast
    qed
  qed
qed

section \<open>The sample results are results of the constructors\<close>

lemma py_split_joining_title: "py_split ''IGHJ4*02 germline'' = [''IGHJ4*02'', ''germline'']"
  by (simp add: py_split_def is_space_def)

lemma sample_v_is_constructed:
  "BlastResult_init ''seq1'' [gapped_candidate] ''GGACGACGTTT'' ''human'' = Inr sample_v"
  using sample_init [of "''seq1''" "''GGACGACGTTT''"] by (simp add: sample_v_def)

lemma sample_j_is_constructed:
  "BlastResult_init ''seq1'' [joining_candidate] ''CCTTTGGAAACCCGGGTTT'' ''human'' = Inr sample_j"
  by (simp add: BlastResult_init_def BlastResult_get_top_germline_def top_alignment_def
      top_hsp_def first_hsp_eq title_gene_eq py_getitem_0 joining_candidate_def joining_hsp_def
      py_split_joining_title BlastResult_get_all_germlines_def BlastResult_get_top_score_def
      BlastResult_get_all_scores_def BlastResult_get_top_evalue_def
      BlastResult_get_all_evalues_def BlastResult_get_top_bitscore_def
      BlastResult_get_all_bitscores_def BlastResult_get_query_alignment_def
      BlastResult_get_germline_alignment_def BlastResult_get_alignment_midline_def
      BlastResult_get_alignment_length_def BlastResult_get_query_start_def
      BlastResult_get_germline_start_def BlastResult_gene_type_def py_getitem_def
      BlastResult_get_query_end_def BlastResult_get_germline_end_def BlastResult_chain_def
      startswith_def sample_j_def)

lemma junction_alignment_is_constructed:
  "Alignment_init ''IGHD1-1*01'' ''CC'' (Some ''GGTCC'')
     \<lparr> pa_cigar_string = ''2M'', pa_ref_begin = 0, pa_ref_end = 1,
       pa_query_begin = 3, pa_query_end = 4, pa_score = 6 \<rparr> = Inr junction_alignment"
  by (simp add: Alignment_init_def Alignment_get_aligned_target_def
      Alignment_get_aligned_query_def py_slice_def py_bound_def junction_alignment_def)

lemma sample_d_is_constructed:
  "DiversityResult_init sample_mutations ''seq1'' ''CC'' [junction_alignment] = Inr sample_d"
  by (simp add: DiversityResult_init_def DiversityResult_get_top_germline_def
      DiversityResult_get_top_score_def py_getitem_0 junction_alignment_def
      DiversityResult_get_all_germlines_def DiversityResult_get_all_scores_def
      DiversityResult_get_alignment_midline_def DiversityResult_get_sequence_def
      DiversityResult_get_reading_frame_def py_slice_def py_bound_def sample_mutations_def
      sample_d_def Let_def)

end
